theory Spec2Isabelle
  imports Complex_Main
begin

section \<open>JavaScript values used by page.tsx\<close>

text \<open>
  A JavaScript Number is an IEEE double. A finite double is represented by the rational
  number it denotes (\<open>Fin\<close>); the two zeros are both \<open>Fin 0\<close>: the comparisons,
  \<open>!x\<close> and \<open>toFixed\<close> do not tell them apart, and the sign of a zero, which only the
  host's printing could show, is not modelled. Comparison of doubles is exact, so the
  relational operators below are the comparisons of the denoted values, and every
  comparison with \<open>NaN\<close> is false.
\<close>

datatype number = NaN | NegInf | Fin rat | PosInf

fun num_lt :: "number \<Rightarrow> number \<Rightarrow> bool" where
  "num_lt NaN y = False"
| "num_lt x NaN = False"
| "num_lt (Fin a) (Fin b) = (a < b)"
| "num_lt NegInf NegInf = False"
| "num_lt NegInf y = True"
| "num_lt x NegInf = False"
| "num_lt PosInf y = False"
| "num_lt (Fin a) PosInf = True"

definition num_gt :: "number \<Rightarrow> number \<Rightarrow> bool" where
  "num_gt x y = num_lt y x"

definition num_ge :: "number \<Rightarrow> number \<Rightarrow> bool" where
  \<comment> \<open>\<open>x >= y\<close>: false when either side is NaN, otherwise the negation of \<open>x < y\<close>\<close>
  "num_ge x y = (x \<noteq> NaN \<and> y \<noteq> NaN \<and> \<not> num_lt x y)"

definition num_le :: "number \<Rightarrow> number \<Rightarrow> bool" where
  "num_le x y = (x \<noteq> NaN \<and> y \<noteq> NaN \<and> \<not> num_lt y x)"

definition strict_eq :: "number \<Rightarrow> number \<Rightarrow> bool" where
  \<comment> \<open>\<open>x === y\<close> on Numbers: NaN is equal to nothing\<close>
  "strict_eq x y = (x \<noteq> NaN \<and> y \<noteq> NaN \<and> x = y)"

text \<open>
  A value that may be absent: \<open>undefined\<close>, \<open>null\<close>, or a value of the declared type.
  It is the type of every parameter declared optional (\<open>x?: T\<close>, \<open>T | null\<close>) and of every
  field of the payload that the rendering code guards with \<open>??\<close> or \<open>?.\<close>.
\<close>

datatype 'a js_opt = Undefined | Null | Val 'a

fun ToNumber :: "number js_opt \<Rightarrow> number" where
  "ToNumber Undefined = NaN"
| "ToNumber Null = Fin 0"
| "ToNumber (Val n) = n"

fun falsy_num :: "number js_opt \<Rightarrow> bool" where
  \<comment> \<open>\<open>!x\<close> for an optional Number: undefined, null, 0 and NaN are falsy\<close>
  "falsy_num Undefined = True"
| "falsy_num Null = True"
| "falsy_num (Val n) = (n = Fin 0 \<or> n = NaN)"

fun falsy_str :: "string js_opt \<Rightarrow> bool" where
  \<comment> \<open>\<open>!s\<close> for an optional String: undefined, null and the empty string are falsy\<close>
  "falsy_str Undefined = True"
| "falsy_str Null = True"
| "falsy_str (Val s) = (s = [])"

text \<open>
  Strings are byte strings holding the UTF-8 encoding of the JavaScript string. The three
  characters of page.tsx outside ASCII are named here. JavaScript compares strings by code
  unit; the source compares only against ASCII literals, where the first position that
  differs decides and a character outside ASCII is above every ASCII character in both
  encodings.
\<close>

definition em_dash :: string where
  "em_dash = [CHR 0xE2, CHR 0x80, CHR 0x94]"

definition rsquo :: string where
  "rsquo = [CHR 0xE2, CHR 0x80, CHR 0x99]"

definition hellip :: string where
  "hellip = [CHR 0xE2, CHR 0x80, CHR 0xA6]"

fun str_lt :: "string \<Rightarrow> string \<Rightarrow> bool" where
  "str_lt [] [] = False"
| "str_lt [] (y # ys) = True"
| "str_lt (x # xs) [] = False"
| "str_lt (x # xs) (y # ys) =
     (if x = y then str_lt xs ys else (of_char x :: nat) < of_char y)"

definition str_gt :: "string \<Rightarrow> string \<Rightarrow> bool" where
  "str_gt a b = str_lt b a"

section \<open>Message helpers\<close>

definition getStepsMessage :: "number \<Rightarrow> string" where
  "getStepsMessage steps =
     (if num_lt steps (Fin 50000) then
        ''Whoa... did your sneakers go on vacation? Your couch definitely won this year.''
      else if num_lt steps (Fin 200000) then
        ''You kept things casual'' @ em_dash
          @ ''enough movement to keep the playlists going, but room to roam.''
      else if num_lt steps (Fin 500000) then
        ''You were active! That many steps is basically a never-ending city stroll.''
      else ''Holy moly cuz... that's alot of steps!'')"

definition getDistanceMessage :: "number \<Rightarrow> string" where
  "getDistanceMessage km =
     (if num_ge km (Fin 1500) then ''That's like walking from Toronto to Minnesota!''
      else if num_ge km (Fin 800) then
        ''You covered enough ground to stretch across a couple of countries.''
      else if num_ge km (Fin 200) then
        ''Solid grind: that'' @ rsquo
          @ ''s a full-on road trip completed one stride at a time.''
      else ''Every kilometer counts'' @ em_dash
          @ ''keep stacking them and the map won'' @ rsquo @ ''t keep up.'')"

definition getFlightsMessage :: "number \<Rightarrow> string" where
  "getFlightsMessage flights =
     (if strict_eq flights (Fin 0) then
        ''Elevators only? No judgement, but even your smartwatch is side-eyeing you.''
      else if num_lt flights (Fin 200) then
        ''Steady climbs! You treated stairs like background dancers.''
      else if num_lt flights (Fin 500) then
        ''You and staircases? Basically on a first-name basis.''
      else ''All this cardio warrants skipping every single leg day'')"

definition getSleepHoursMessage :: "number \<Rightarrow> string" where
  "getSleepHoursMessage hours =
     (if num_gt hours (Fin 3000) then
        ''This year was part bedtime story, part hibernation docuseries.''
      else if num_gt hours (Fin 2000) then
        ''Consider yourself well-rested royalty'' @ em_dash @ ''crowns made of pillows.''
      else ''Sleep was a bit of a speedrun :('')"

definition getBedtimeMessage :: "string js_opt \<Rightarrow> string" where
  "getBedtimeMessage bedtime =
     (if falsy_str bedtime then ''Bedtime mystery unlocked soon.''
      else case bedtime of
        Val s \<Rightarrow>
          (if str_gt s ''23:00'' then
             ''Night owl confirmed'' @ em_dash @ ''you love the late-night vibes.''
           else ''Pretty tidy bedtime. Your circadian rhythm approves.'')
      | _ \<Rightarrow> ''Bedtime mystery unlocked soon.'')"

definition getWakeMessage :: "string js_opt \<Rightarrow> string" where
  "getWakeMessage waketime =
     (if falsy_str waketime then ''Wake time? Still buffering.''
      else case waketime of
        Val s \<Rightarrow>
          (if str_lt s ''07:00'' then
             ''Early bird energy'' @ em_dash @ ''you probably saw a few sunrises.''
           else ''You vibe with the snooze button and we're here for it.'')
      | _ \<Rightarrow> ''Wake time? Still buffering.'')"

definition getRestlessNightMessage :: "number js_opt \<Rightarrow> string" where
  "getRestlessNightMessage awakeningCount =
     (if falsy_num awakeningCount then ''Quite the restless night!''
      else if num_gt (ToNumber awakeningCount) (Fin 10) then ''Quite the restless night!''
      else ''A few tosses and turns, but you made it through.'')"

definition getLongestSleepMessage :: "number js_opt \<Rightarrow> string" where
  "getLongestSleepMessage hours =
     (if falsy_num hours then ''Quite the slumber.''
      else if num_ge (ToNumber hours) (Fin 12) then
        ''Quite the slumber'' @ em_dash @ ''did you awaken in another era?''
      else ''Big slumber time'')"

definition getShortestSleepMessage :: "number js_opt \<Rightarrow> string" where
  "getShortestSleepMessage hours =
     (if falsy_num hours then ''Power nap vibes.''
      else if num_le (ToNumber hours) (Fin 3) then ''Basically a blink LOL''
      else ''Blink and you missed that night.'')"

definition getRunCountMessage :: "number \<Rightarrow> string" where
  "getRunCountMessage runs =
     (if strict_eq runs (Fin 0) then
        ''Your running shoes are in mint condition. Maybe too mint.''
      else if num_lt runs (Fin 20) then ''Quality over quantity I suppose.''
      else if num_lt runs (Fin 60) then
        ''Steady rhythm. Those playlists got some mileage.''
      else ''You basically lived on the leaderboard.'')"

definition getLongestRunMessage :: "number \<Rightarrow> string" where
  "getLongestRunMessage km =
     (if num_ge km (Fin 30) then
        ''Marathon-core unlocked. That'' @ rsquo @ ''s an epic long run.''
      else if num_ge km (Fin 15) then
        ''Long enough to cross a couple neighborhoods with bragging rights.''
      else ''Bent the corner.'')"

definition getFastestPaceMessage :: "number js_opt \<Rightarrow> string" where
  "getFastestPaceMessage pace =
     (if falsy_num pace then
        ''Pace radar couldn'' @ rsquo @ ''t lock on'' @ em_dash @ ''mysterious speed!''
      else if num_lt (ToNumber pace) (Fin 4) then
        ''Blazing. You left even the data catching its breath.''
      else if num_lt (ToNumber pace) (Fin (11 / 2)) then
        ''Swift and smooth'' @ em_dash @ ''you floated through those runs.''
      else ''Vibez and cardio.'')"

definition getRunDistanceMessage :: "number \<Rightarrow> string" where
  "getRunDistanceMessage km =
     (if num_ge km (Fin 500) then
        ''That's a legit tour of the map. Passport stamps pending.''
      else if num_ge km (Fin 200) then
        ''Hundreds of kilometers, countless playlists finished.''
      else ''Every kilometer counts.'')"

definition getExerciseMinutesMessage :: "number \<Rightarrow> string" where
  "getExerciseMinutesMessage minutes =
     (if num_ge minutes (Fin 2000) then
        ''Time is muscle'' @ em_dash @ ''you basically lived in workout mode.''
      else if num_ge minutes (Fin 1000) then ''Hours kept stackin.''
      else ''Every minute mattered. Warm-up phase complete.'')"

definition getCaloriesBurnedMessage :: "number \<Rightarrow> string" where
  "getCaloriesBurnedMessage calories =
     (if num_ge calories (Fin 100000) then
        ''That'' @ rsquo @ ''s enough energy to light up the block.''
      else if num_ge calories (Fin 50000) then
        ''Plenty of sweat equity invested this year.''
      else ''A solid burn to get started.'')"

definition getStandHoursMessage :: "number \<Rightarrow> string" where
  "getStandHoursMessage hours =
     (if num_ge hours (Fin 500) then ''CHAIRS EXIST BRO''
      else if num_ge hours (Fin 300) then
        ''You logged serious stand hours; the chair missed you.''
      else ''Baby steps toward less sitting. Keep it up.'')"

datatype bpm_type = high | avg

definition getWorkoutBPMMessage :: "number \<Rightarrow> bpm_type \<Rightarrow> string" where
  "getWorkoutBPMMessage v type =
     (if type = high then
        (if num_ge v (Fin 190) then ''We hittin heart till failure or what''
         else if num_ge v (Fin 160) then
           ''You pushed into the spicy zone whenever it mattered.''
         else ''A composed high'' @ em_dash @ ''power with control.'')
      else if num_ge v (Fin 150) then ''Your baseline intensity is pretty fiery.''
      else if num_ge v (Fin 120) then ''Smooth operator''
      else ''Chill sessions. Maybe next season gets a remix?'')"

definition getAvgWorkoutTimeMessage :: "number \<Rightarrow> string" where
  "getAvgWorkoutTimeMessage minutes =
     (if num_ge minutes (Fin 60) then ''Sessions long enough to count as mini-epics.''
      else if num_ge minutes (Fin 30) then ''Perfectly portioned workouts.''
      else ''Quick hits, maximum efficiency. HIIT energy.'')"

definition getAvgCaloriesPerWorkoutMessage :: "number \<Rightarrow> string" where
  "getAvgCaloriesPerWorkoutMessage calories =
     (if num_ge calories (Fin 600) then ''Every workout was a blockbuster burn.''
      else if num_ge calories (Fin 350) then
        ''A consistent burn that kept stacking up.''
      else ''Light and breezy.'')"

section \<open>Built-in operations of the host\<close>

text \<open>
  The built-ins whose results depend on the host or on the rounding of doubles are
  parameters of the model: the conversion of a Number to a String (\<open>String(x)\<close> and
  template literals), \<open>toLocaleString\<close>, the addition of two doubles and the
  conversion of a String to a Number. Every theorem holds for whatever they compute.
\<close>

record builtins =
  numberToString :: "number \<Rightarrow> string"
  toLocaleString :: "number \<Rightarrow> string"
  num_add :: "number \<Rightarrow> number \<Rightarrow> number"
  stringToNumber :: "string \<Rightarrow> number"

definition digit_char :: "nat \<Rightarrow> char" where
  "digit_char n = ''0123456789'' ! (n mod 10)"

fun String_nat :: "nat \<Rightarrow> string" where
  \<comment> \<open>the decimal digits of a non-negative integer, as \<open>String(idx)\<close> gives them\<close>
  "String_nat n =
     (if n < 10 then [digit_char n] else String_nat (n div 10) @ [digit_char (n mod 10)])"

declare String_nat.simps [simp del]

fun Math_round :: "number \<Rightarrow> number" where
  \<comment> \<open>the nearest integer, a tie going towards plus infinity\<close>
  "Math_round (Fin r) = Fin (of_int \<lfloor>r + 1 / 2\<rfloor>)"
| "Math_round x = x"

definition toFixed :: "builtins \<Rightarrow> number \<Rightarrow> nat \<Rightarrow> string" where
  \<comment> \<open>\<open>Number.prototype.toFixed\<close>: \<open>n\<close> is the integer nearest to \<open>x * 10 ^ f\<close>, the
      larger one on a tie; at least one digit stands before the point\<close>
  "toFixed P x f =
     (case x of
        NaN \<Rightarrow> ''NaN''
      | PosInf \<Rightarrow> ''Infinity''
      | NegInf \<Rightarrow> ''-Infinity''
      | Fin r \<Rightarrow>
          (let s = (if r < 0 then ''-'' else []);
               a = \<bar>r\<bar>
           in if a \<ge> 10 ^ 21 then s @ numberToString P (Fin a)
              else
                let n = nat \<lfloor>a * 10 ^ f + 1 / 2\<rfloor>;
                    m = String_nat n;
                    z = (if length m \<le> f then replicate (f + 1 - length m) CHR ''0'' @ m
                         else m);
                    k = length z
                in s @ (if f = 0 then m else take (k - f) z @ ''.'' @ drop (k - f) z)))"

definition template_num :: "builtins \<Rightarrow> number js_opt \<Rightarrow> string" where
  \<comment> \<open>\<open>`${x}`\<close> for a Number that may be absent\<close>
  "template_num P x =
     (case x of Undefined \<Rightarrow> ''undefined'' | Null \<Rightarrow> ''null'' | Val n \<Rightarrow> numberToString P n)"

definition template_num_or :: "builtins \<Rightarrow> number js_opt \<Rightarrow> string \<Rightarrow> string" where
  \<comment> \<open>\<open>`${x ?? d}`\<close> for a Number \<open>x\<close> that may be absent and a String \<open>d\<close>\<close>
  "template_num_or P x d = (case x of Val n \<Rightarrow> numberToString P n | _ \<Rightarrow> d)"

definition nullish :: "'a js_opt \<Rightarrow> 'a js_opt \<Rightarrow> 'a js_opt" where
  \<comment> \<open>\<open>a ?? b\<close>\<close>
  "nullish a b = (case a of Val v \<Rightarrow> Val v | _ \<Rightarrow> b)"

definition nullish_or :: "'a js_opt \<Rightarrow> 'a \<Rightarrow> 'a" where
  \<comment> \<open>\<open>a ?? d\<close> where \<open>d\<close> is a value of the declared type\<close>
  "nullish_or a d = (case a of Val v \<Rightarrow> v | _ \<Rightarrow> d)"

definition opt_chain :: "'r js_opt \<Rightarrow> ('r \<Rightarrow> 'a) \<Rightarrow> 'a js_opt" where
  \<comment> \<open>\<open>x?.f\<close>: undefined when \<open>x\<close> is undefined or null, and no exception\<close>
  "opt_chain x f = (case x of Val r \<Rightarrow> Val (f r) | _ \<Rightarrow> Undefined)"

section \<open>The payload\<close>

text \<open>
  An object with Number values is its table of own properties, from property name to
  value. A property name is a String: a read with the Number \<open>idx\<close> as the key reads
  the property named \<open>String(idx)\<close>.
\<close>

type_synonym js_object = "string \<rightharpoonup> number"

definition get_by_number :: "js_object \<Rightarrow> nat \<Rightarrow> number js_opt" where
  "get_by_number obj idx =
     (case obj (String_nat idx) of Some v \<Rightarrow> Val v | None \<Rightarrow> Undefined)"

definition get_by_string :: "js_object \<Rightarrow> string \<Rightarrow> number js_opt" where
  "get_by_string obj key = (case obj key of Some v \<Rightarrow> Val v | None \<Rightarrow> Undefined)"

record woken_night =
  awakening_count :: number
  date_woke :: string

record sleep_night =
  duration_hours :: number
  date_woke :: string

text \<open>
  The fields of the interface \<open>WrappedData\<close>, in its order. A field that the interface
  declares optional or nullable, or that the rendering code guards with \<open>??\<close>, \<open>?.\<close> or
  \<open>||\<close>, may be absent.
\<close>

record WrappedData =
  steps_total :: number
  distance_total_km :: number
  flights_total :: number
  total_runs :: number
  longest_run_km :: number
  fastest_pace_min_per_km :: "number js_opt"
  run_distances :: "number list js_opt"
  resting_hr_avg :: number
  workout_hr_avg :: number
  workouts_count :: number
  highest_workout_bpm :: "number js_opt"
  avg_workout_bpm :: "number js_opt"
  avg_workout_time_min :: "number js_opt"
  avg_calories_per_workout :: "number js_opt"
  total_workout_calories :: "number js_opt"
  most_calories_burned_day :: string
  most_calories_burned_value :: number
  move_total :: number
  exercise_total :: "number js_opt"
  stand_total :: "number js_opt"
  steps_monthly :: "js_object js_opt"
  workouts_monthly :: "js_object js_opt"
  wrapped_year :: number
  total_net_sleep_hours :: number
  total_nights_with_data :: "number js_opt"
  avg_sleep_per_night :: number
  avg_bedtime :: "string js_opt"
  avg_waketime :: "string js_opt"
  longest_sleep_night :: "sleep_night js_opt"
  most_woken_night :: "woken_night js_opt"
  shortest_sleep_night :: "sleep_night js_opt"

section \<open>Components\<close>

text \<open>
  A component is modelled by the text it puts in each of its slots; class names and
  animation settings are left out. A slot filled by \<open>x && <p>{x}</p>\<close> is rendered only
  when \<open>x\<close> is truthy.
\<close>

record stat_view =
  stat_value :: string
  stat_label :: string
  stat_message :: string

record card_view =
  card_label :: string
  card_value :: string
  card_note :: "string option"
  card_footer :: "string option"

record tile_view =
  tile_title :: string
  tile_stat :: string
  tile_note :: string
  tile_theme :: string

definition when_truthy :: "string js_opt \<Rightarrow> (string \<Rightarrow> string) \<Rightarrow> string option" where
  "when_truthy x f = (case x of Val s \<Rightarrow> (if s = [] then None else Some (f s)) | _ \<Rightarrow> None)"

definition SleepCard ::
  "string \<Rightarrow> string \<Rightarrow> string js_opt \<Rightarrow> string js_opt \<Rightarrow> card_view" where
  "SleepCard label v note footer =
     \<lparr>card_label = label, card_value = v,
      card_note = when_truthy note (\<lambda>s. s),
      card_footer = when_truthy footer (\<lambda>s. ''Day: '' @ s)\<rparr>"

definition RunCard :: "string \<Rightarrow> string \<Rightarrow> string js_opt \<Rightarrow> card_view" where
  "RunCard label v note =
     \<lparr>card_label = label, card_value = v,
      card_note = when_truthy note (\<lambda>s. s),
      card_footer = None\<rparr>"

definition SummaryTile :: "string \<Rightarrow> string \<Rightarrow> string \<Rightarrow> string \<Rightarrow> tile_view" where
  "SummaryTile title stat note theme =
     \<lparr>tile_title = title, tile_stat = stat, tile_note = note, tile_theme = theme\<rparr>"

definition FinalSummarySlide ::
  "builtins \<Rightarrow> number \<Rightarrow> number \<Rightarrow> number js_opt \<Rightarrow> number \<Rightarrow> tile_view list" where
  "FinalSummarySlide P movementSteps sleepHours fastestPace totalCaloriesBurned =
     [SummaryTile ''Movement'' (toLocaleString P movementSteps @ '' steps'')
        ''Stride after stride, you kept the beat.'' ''movement'',
      SummaryTile ''Sleep'' (toLocaleString P sleepHours @ '' hrs'')
        ''Dream bank fully credited.'' ''sleep'',
      SummaryTile ''Running''
        (if falsy_num fastestPace then em_dash
         else template_num P fastestPace @ '' min/km'')
        ''Pace so smooth it deserves its own playlist.'' ''running'',
      SummaryTile ''Fitness'' (toLocaleString P totalCaloriesBurned @ '' kcal'')
        ''Calories burned like an endless encore.'' ''fitness'']"

definition months :: "string list" where
  "months = [''Jan'', ''Feb'', ''Mar'', ''Apr'', ''May'', ''Jun'',
             ''Jul'', ''Aug'', ''Sep'', ''Oct'', ''Nov'', ''Dec'']"

definition month_value :: "js_object \<Rightarrow> nat \<Rightarrow> number" where
  \<comment> \<open>the body of the callback of \<open>months.map\<close>, for the array index \<open>i\<close>\<close>
  "month_value obj i =
     (let idx = i + 1
      in nullish_or (nullish (get_by_number obj idx) (get_by_string obj (String_nat idx)))
           (Fin 0))"

definition MonthlyStepsChart :: "js_object js_opt \<Rightarrow> (string \<times> number) list" where
  \<comment> \<open>the \<open>data\<close> handed to the line chart: the pairs of \<open>name\<close> and \<open>steps\<close>\<close>
  "MonthlyStepsChart steps =
     (let safeSteps = nullish_or steps Map.empty
      in map (\<lambda>(i, m). (m, month_value safeSteps i)) (zip [0..<length months] months))"

definition WorkoutTimelineChart :: "js_object js_opt \<Rightarrow> (string \<times> number) list" where
  \<comment> \<open>the \<open>data\<close> handed to the bar chart: the pairs of \<open>name\<close> and \<open>workouts\<close>\<close>
  "WorkoutTimelineChart workouts =
     (let safeWorkouts = nullish_or workouts Map.empty
      in map (\<lambda>(i, m). (m, month_value safeWorkouts i)) (zip [0..<length months] months))"

section \<open>The page\<close>

definition totalRunDistance :: "builtins \<Rightarrow> WrappedData \<Rightarrow> string" where
  "totalRunDistance P d =
     toFixed P (foldl (num_add P) (Fin 0) (nullish_or (run_distances d) [])) 2"

definition steps_slide :: "builtins \<Rightarrow> WrappedData \<Rightarrow> stat_view" where
  "steps_slide P d =
     \<lparr>stat_value = toLocaleString P (steps_total d),
      stat_label = ''Total Steps'',
      stat_message = getStepsMessage (steps_total d)\<rparr>"

definition sleep_nights_slide :: "builtins \<Rightarrow> WrappedData \<Rightarrow> card_view list" where
  "sleep_nights_slide P d =
     [SleepCard ''Most Woken Night''
        (template_num_or P (opt_chain (most_woken_night d) awakening_count) ''N/A''
           @ '' wake-ups'')
        (Val (getRestlessNightMessage (opt_chain (most_woken_night d) awakening_count)))
        (opt_chain (most_woken_night d) woken_night.date_woke),
      SleepCard ''Longest Sleep''
        (template_num_or P (opt_chain (longest_sleep_night d) duration_hours) ''N/A''
           @ '' hrs'')
        (Val (getLongestSleepMessage (opt_chain (longest_sleep_night d) duration_hours)))
        (opt_chain (longest_sleep_night d) sleep_night.date_woke),
      SleepCard ''Shortest Sleep''
        (template_num_or P (opt_chain (shortest_sleep_night d) duration_hours) ''N/A''
           @ '' hrs'')
        (Val (getShortestSleepMessage (opt_chain (shortest_sleep_night d) duration_hours)))
        (opt_chain (shortest_sleep_night d) sleep_night.date_woke)]"

definition run_cards_slide :: "builtins \<Rightarrow> WrappedData \<Rightarrow> card_view list" where
  "run_cards_slide P d =
     [RunCard ''Longest Run''
        (numberToString P (longest_run_km d) @ '' km'')
        (Val (getLongestRunMessage (longest_run_km d))),
      RunCard ''Fastest Pace''
        (template_num P (fastest_pace_min_per_km d) @ '' min/km'')
        (Val (getFastestPaceMessage (fastest_pace_min_per_km d))),
      RunCard ''Distance in Runs''
        (totalRunDistance P d @ '' km'')
        (Val (getRunDistanceMessage (stringToNumber P (totalRunDistance P d))))]"

text \<open>
  The slides of the page that show the step total, the monthly series, the three nights,
  the three run figures and the closing summary; the other slides follow the same
  pattern and read none of the optional run or night fields.
\<close>

record page_view =
  steps :: stat_view
  steps_chart :: "(string \<times> number) list"
  sleep_nights :: "card_view list"
  run_cards :: "card_view list"
  workouts_chart :: "(string \<times> number) list"
  final_summary :: "tile_view list"

datatype view = Loading string | Page page_view

definition render_page :: "builtins \<Rightarrow> WrappedData \<Rightarrow> page_view" where
  "render_page P d =
     \<lparr>steps = steps_slide P d,
      steps_chart = MonthlyStepsChart (steps_monthly d),
      sleep_nights = sleep_nights_slide P d,
      run_cards = run_cards_slide P d,
      workouts_chart = WorkoutTimelineChart (workouts_monthly d),
      final_summary =
        FinalSummarySlide P (steps_total d) (Math_round (total_net_sleep_hours d))
          (nullish (fastest_pace_min_per_km d) Null)
          (nullish_or (total_workout_calories d) (Fin 0))\<rparr>"

definition Home_render :: "builtins \<Rightarrow> WrappedData option \<Rightarrow> view" where
  \<comment> \<open>the body of \<open>Home\<close> after its hooks, for the current value of \<open>data\<close>\<close>
  "Home_render P data =
     (case data of
        None \<Rightarrow> Loading (''Loading your Wrapped'' @ hellip)
      | Some d \<Rightarrow> Page (render_page P d))"

section \<open>Loading the payload\<close>

text \<open>
  A settled promise is a sum: \<open>Inl\<close> the reason of a rejection, \<open>Inr\<close> the value of a
  fulfilment. \<open>fetch\<close> rejects on a network error, and \<open>res.json()\<close> rejects when the
  body is not JSON.
\<close>

datatype js_error = NetworkError string | JsonSyntaxError string

datatype response = Response (json: "js_error + WrappedData")

record request =
  req_method :: string
  req_url :: string

record home_state =
  data :: "WrappedData option"
  console_error :: "(string \<times> js_error) list"
  requests :: "request list"

definition initial :: home_state where
  \<comment> \<open>\<open>useState<WrappedData | null>(null)\<close>, nothing logged, nothing requested\<close>
  "initial = \<lparr>data = None, console_error = [], requests = []\<rparr>"

definition then_promise :: "js_error + 'a \<Rightarrow> ('a \<Rightarrow> js_error + 'b) \<Rightarrow> js_error + 'b" where
  \<comment> \<open>\<open>p.then(f)\<close> where \<open>f\<close> returns a promise: a rejection passes through\<close>
  "then_promise p f = (case p of Inl e \<Rightarrow> Inl e | Inr v \<Rightarrow> f v)"

definition wrapped_request :: request where
  \<comment> \<open>\<open>fetch\<close> with a URL and no options is a GET\<close>
  "wrapped_request = \<lparr>req_method = ''GET'', req_url = ''http://127.0.0.1:8000/wrapped''\<rparr>"

definition effect_issue :: "home_state \<Rightarrow> home_state" where
  \<comment> \<open>the call \<open>fetch("http://127.0.0.1:8000/wrapped")\<close> of the effect\<close>
  "effect_issue s = s\<lparr>requests := requests s @ [wrapped_request]\<rparr>"

definition effect_settle ::
  "js_error + response \<Rightarrow> home_state \<Rightarrow> (js_error + unit) \<times> home_state" where
  \<comment> \<open>the chain \<open>.then(res => res.json()).then(json => setData(json)).catch(...)\<close> run on
      the settled \<open>fetch\<close>; the first component is how the last promise settles\<close>
  "effect_settle fetched s =
     (case then_promise fetched json of
        Inr j \<Rightarrow> (Inr (), s\<lparr>data := Some j\<rparr>)
      | Inl e \<Rightarrow>
          (Inr (), s\<lparr>console_error := console_error s @ [(''Failed to fetch wrapped data:'', e)]\<rparr>))"

text \<open>
  What happens to the component, as a list of events.
  \<^item> \<open>Mount\<close>: React runs the effect. The effect has no cleanup and keeps no record of
    an earlier run, so every run of it calls \<open>fetch\<close>. React runs it once when the
    component mounts, and a second time, with the state kept, in development under
    StrictMode.
  \<^item> \<open>Settle r\<close>: a fetch that was issued settles as \<open>r\<close>, and the chain of handlers runs.
  \<^item> \<open>Rerender\<close>: the component renders again; the dependency list of the effect is
    empty, so the effect is not run.
\<close>

datatype event = Mount | Settle "js_error + response" | Rerender

fun step :: "home_state \<Rightarrow> event \<Rightarrow> home_state" where
  "step s Mount = effect_issue s"
| "step s (Settle r) = snd (effect_settle r s)"
| "step s Rerender = s"

definition run :: "home_state \<Rightarrow> event list \<Rightarrow> home_state" where
  "run s evs = foldl step s evs"

definition Home :: "builtins \<Rightarrow> home_state \<Rightarrow> view" where
  "Home P s = Home_render P (data s)"

fun fetch_failed :: "js_error + response \<Rightarrow> bool" where
  "fetch_failed (Inl e) = True"
| "fetch_failed (Inr (Response (Inl e))) = True"
| "fetch_failed (Inr (Response (Inr j))) = False"

fun delivers_data :: "event \<Rightarrow> bool" where
  "delivers_data (Settle r) = (\<not> fetch_failed r)"
| "delivers_data e = False"

text \<open>
  The lists of events that the runtime can produce when \<open>p\<close> fetches are pending: a fetch
  settles once, so every \<open>Settle\<close> uses up one fetch that an earlier \<open>Mount\<close> issued.
\<close>

fun realizable :: "nat \<Rightarrow> event list \<Rightarrow> bool" where
  "realizable p [] = True"
| "realizable p (Mount # evs) = realizable (Suc p) evs"
| "realizable p (Settle r # evs) = (0 < p \<and> realizable (p - 1) evs)"
| "realizable p (Rerender # evs) = realizable p evs"

section \<open>Month mappings and sample inputs\<close>

text \<open>
  The table that a list of entries denotes, a later entry replacing an earlier one with
  the same key. With Strings as keys it is the object that a JSON text denotes; with month
  numbers as keys it is the month mapping of the specification. \<open>string_keyed\<close> writes
  every key of a list of entries in its String form.
\<close>

definition object_of_entries :: "('k \<times> number) list \<Rightarrow> ('k \<rightharpoonup> number)" where
  "object_of_entries kvs = foldl (\<lambda>obj (k, v). obj(k \<mapsto> v)) Map.empty kvs"

definition string_keyed :: "(nat \<times> number) list \<Rightarrow> (string \<times> number) list" where
  "string_keyed kvs = map (\<lambda>(k, v). (String_nat k, v)) kvs"

text \<open>
  The transform in the words of the specification, on a mapping from month numbers to
  values: twelve entries, Jan to Dec in order, the entry at index \<open>k - 1\<close> carrying the
  value of month \<open>k\<close>, and 0 for a month that the mapping leaves out.
\<close>

definition spec_month_series :: "(nat \<rightharpoonup> number) \<Rightarrow> (string \<times> number) list" where
  "spec_month_series m =
     map (\<lambda>k. (months ! (k - 1), case m k of Some v \<Rightarrow> v | None \<Rightarrow> Fin 0)) [1..<13]"

text \<open>
  A host and a payload on which the theorems are evaluated. The host prints the integer
  part of a Number and adds finite Numbers exactly; the sample values are ones whose sums
  are exact in doubles as well.
\<close>

definition example_host :: builtins where
  "example_host =
     \<lparr>numberToString = (\<lambda>x. case x of Fin r \<Rightarrow> String_nat (nat \<lfloor>r\<rfloor>) | _ \<Rightarrow> ''NaN''),
      toLocaleString = (\<lambda>x. case x of Fin r \<Rightarrow> String_nat (nat \<lfloor>r\<rfloor>) | _ \<Rightarrow> ''NaN''),
      num_add = (\<lambda>a b. case (a, b) of (Fin x, Fin y) \<Rightarrow> Fin (x + y) | _ \<Rightarrow> NaN),
      stringToNumber = (\<lambda>s. NaN)\<rparr>"

definition example_payload :: WrappedData where
  "example_payload =
     \<lparr>steps_total = Fin 600000,
      distance_total_km = Fin 450,
      flights_total = Fin 120,
      total_runs = Fin 2,
      longest_run_km = Fin 10,
      fastest_pace_min_per_km = Val (Fin 5),
      run_distances = Val [Fin 5, Fin (41 / 4)],
      resting_hr_avg = Fin 60,
      workout_hr_avg = Fin 130,
      workouts_count = Fin 40,
      highest_workout_bpm = Val (Fin 180),
      avg_workout_bpm = Val (Fin 130),
      avg_workout_time_min = Val (Fin 45),
      avg_calories_per_workout = Val (Fin 400),
      total_workout_calories = Val (Fin 16000),
      most_calories_burned_day = ''2024-06-01'',
      most_calories_burned_value = Fin 900,
      move_total = Fin 100000,
      exercise_total = Val (Fin 1800),
      stand_total = Val (Fin 350),
      steps_monthly = Val [''3'' \<mapsto> Fin 500],
      workouts_monthly = Val Map.empty,
      wrapped_year = Fin 2024,
      total_net_sleep_hours = Fin 2500,
      total_nights_with_data = Val (Fin 300),
      avg_sleep_per_night = Fin 7,
      avg_bedtime = Val ''23:30'',
      avg_waketime = Val ''07:15'',
      longest_sleep_night = Val \<lparr>duration_hours = Fin 11, date_woke = ''2024-01-02''\<rparr>,
      most_woken_night = Val \<lparr>awakening_count = Fin 7, date_woke = ''2024-02-03''\<rparr>,
      shortest_sleep_night = Val \<lparr>duration_hours = Fin 4, date_woke = ''2024-03-04''\<rparr>\<rparr>"

section \<open>Evaluation lemmas\<close>

lemma floor_rat_numeral:
  "\<lfloor>(numeral a :: rat) / numeral b\<rfloor> = numeral a div numeral b"
  "\<lfloor>(1 :: rat) / numeral b\<rfloor> = 1 div numeral b"
  using floor_divide_of_int_eq [of "numeral a" "numeral b", where ?'a = rat]
        floor_divide_of_int_eq [of 1 "numeral b", where ?'a = rat]
  by simp_all

lemma String_nat_numeral:
  "String_nat (numeral k) =
     (if (numeral k :: nat) < 10 then [digit_char (numeral k)]
      else String_nat (numeral k div 10) @ [digit_char (numeral k mod 10)])"
  "String_nat 0 = ''0''"
  "String_nat 1 = ''1''"
  "String_nat (Suc 0) = ''1''"
  by (simp_all add: String_nat.simps [of "numeral k"] String_nat.simps [of 0]
        String_nat.simps [of 1] String_nat.simps [of "Suc 0"] digit_char_def)

lemma month_keys:
  "String_nat (Suc 0) = ''1''" "String_nat (Suc (Suc 0)) = ''2''"
  "String_nat 2 = ''2''" "String_nat 3 = ''3''" "String_nat 4 = ''4''"
  "String_nat 5 = ''5''" "String_nat 6 = ''6''" "String_nat 7 = ''7''" "String_nat 8 = ''8''"
  "String_nat 9 = ''9''" "String_nat 10 = ''10''" "String_nat 11 = ''11''"
  "String_nat 12 = ''12''"
  by (simp_all add: String_nat_numeral digit_char_def String_nat.simps [of "Suc (Suc 0)"])

section \<open>The step message\<close>

text \<open>
  C1. \<open>getStepsMessage\<close> returns one of four fixed, pairwise different strings, chosen by
  comparing in order: below 50000 the first, below 200000 the second, below 500000 the
  third, otherwise the fourth. Minus infinity falls in the first range; plus infinity and
  NaN, for which every comparison fails, get the fourth. For a payload whose
  \<open>steps_total\<close> is 600000 the page is rendered and the message of its steps slide is
  "Holy moly cuz... that's alot of steps!".
\<close>

theorem getStepsMessage_thresholds:
  "getStepsMessage (Fin x) =
     (if x < 50000 then
        ''Whoa... did your sneakers go on vacation? Your couch definitely won this year.''
      else if x < 200000 then
        ''You kept things casual'' @ em_dash
          @ ''enough movement to keep the playlists going, but room to roam.''
      else if x < 500000 then
        ''You were active! That many steps is basically a never-ending city stroll.''
      else ''Holy moly cuz... that's alot of steps!'') \<and>
   getStepsMessage NegInf =
     ''Whoa... did your sneakers go on vacation? Your couch definitely won this year.'' \<and>
   getStepsMessage PosInf = ''Holy moly cuz... that's alot of steps!'' \<and>
   getStepsMessage NaN = ''Holy moly cuz... that's alot of steps!'' \<and>
   distinct
     [''Whoa... did your sneakers go on vacation? Your couch definitely won this year.'',
      ''You kept things casual'' @ em_dash
        @ ''enough movement to keep the playlists going, but room to roam.'',
      ''You were active! That many steps is basically a never-ending city stroll.'',
      ''Holy moly cuz... that's alot of steps!''] \<and>
   (steps_total d = Fin 600000 \<longrightarrow>
      Home_render P (Some d) = Page (render_page P d) \<and>
      stat_message (steps (render_page P d)) = ''Holy moly cuz... that's alot of steps!'')"
  by (simp add: getStepsMessage_def em_dash_def Home_render_def render_page_def steps_slide_def)

theorem getStepsMessage_thresholds_witness:
  "steps_total example_payload = Fin 600000 \<and>
   stat_message (steps (render_page example_host example_payload))
     = ''Holy moly cuz... that's alot of steps!'' \<and>
   getStepsMessage (Fin 49999) =
     ''Whoa... did your sneakers go on vacation? Your couch definitely won this year.'' \<and>
   getStepsMessage (Fin 50000) =
     ''You kept things casual'' @ em_dash
        @ ''enough movement to keep the playlists going, but room to roam.'' \<and>
   getStepsMessage (Fin 200000) =
     ''You were active! That many steps is basically a never-ending city stroll.'' \<and>
   getStepsMessage (Fin 500000) = ''Holy moly cuz... that's alot of steps!''"
  using getStepsMessage_thresholds [of 49999 example_payload example_host]
        getStepsMessage_thresholds [of 50000 example_payload example_host]
        getStepsMessage_thresholds [of 200000 example_payload example_host]
        getStepsMessage_thresholds [of 500000 example_payload example_host]
  by (simp add: example_payload_def)

section \<open>The monthly series\<close>

lemma indexed_months:
  "zip [0..<length months] months =
     [(0, ''Jan''), (1, ''Feb''), (2, ''Mar''), (3, ''Apr''), (4, ''May''), (5, ''Jun''),
      (6, ''Jul''), (7, ''Aug''), (8, ''Sep''), (9, ''Oct''), (10, ''Nov''), (11, ''Dec'')]"
  by code_simp

lemma month_value_lookup:
  "month_value obj i = (case obj (String_nat (i + 1)) of Some v \<Rightarrow> v | None \<Rightarrow> Fin 0)"
  by (simp add: month_value_def nullish_or_def nullish_def get_by_number_def get_by_string_def
           split: option.splits)

lemma month_series:
  "map (\<lambda>(i, m). (m, month_value obj i)) (zip [0..<length months] months) =
   map (\<lambda>(m, key). (m, case obj key of Some v \<Rightarrow> v | None \<Rightarrow> Fin 0))
     [(''Jan'', ''1''), (''Feb'', ''2''), (''Mar'', ''3''), (''Apr'', ''4''),
      (''May'', ''5''), (''Jun'', ''6''), (''Jul'', ''7''), (''Aug'', ''8''),
      (''Sep'', ''9''), (''Oct'', ''10''), (''Nov'', ''11''), (''Dec'', ''12'')]"
  unfolding indexed_months
  by (simp add: month_value_lookup month_keys)

lemma month_series_nth:
  assumes "k \<in> {1..12}"
  shows "snd (map (\<lambda>(i, m). (m, month_value obj i)) (zip [0..<length months] months) ! (k - 1))
         = (case obj (String_nat k) of Some v \<Rightarrow> v | None \<Rightarrow> Fin 0)"
proof -
  from assms have "k = 1 \<or> k = 2 \<or> k = 3 \<or> k = 4 \<or> k = 5 \<or> k = 6 \<or> k = 7 \<or> k = 8
      \<or> k = 9 \<or> k = 10 \<or> k = 11 \<or> k = 12"
    by (simp add: atLeastAtMost_iff) arith
  then show ?thesis
    unfolding indexed_months
    by (elim disjE) (simp_all add: month_value_lookup month_keys)
qed

text \<open>
  C2. For every object of month values, the empty one and an absent one included, the
  series handed to the chart by \<open>MonthlyStepsChart\<close> and by \<open>WorkoutTimelineChart\<close> has
  the twelve entries Jan to Dec in order; the entry at index \<open>k - 1\<close> carries the value
  stored for month \<open>k\<close>, and 0 when the object has no entry for that month.
\<close>

theorem month_series_transform:
  "MonthlyStepsChart (Val obj) =
     map (\<lambda>(m, key). (m, case obj key of Some v \<Rightarrow> v | None \<Rightarrow> Fin 0))
       [(''Jan'', ''1''), (''Feb'', ''2''), (''Mar'', ''3''), (''Apr'', ''4''),
        (''May'', ''5''), (''Jun'', ''6''), (''Jul'', ''7''), (''Aug'', ''8''),
        (''Sep'', ''9''), (''Oct'', ''10''), (''Nov'', ''11''), (''Dec'', ''12'')] \<and>
   WorkoutTimelineChart (Val obj) =
     map (\<lambda>(m, key). (m, case obj key of Some v \<Rightarrow> v | None \<Rightarrow> Fin 0))
       [(''Jan'', ''1''), (''Feb'', ''2''), (''Mar'', ''3''), (''Apr'', ''4''),
        (''May'', ''5''), (''Jun'', ''6''), (''Jul'', ''7''), (''Aug'', ''8''),
        (''Sep'', ''9''), (''Oct'', ''10''), (''Nov'', ''11''), (''Dec'', ''12'')] \<and>
   length (MonthlyStepsChart (Val obj)) = 12 \<and>
   length (WorkoutTimelineChart (Val obj)) = 12 \<and>
   (\<forall>k\<in>{1..12}.
      snd (MonthlyStepsChart (Val obj) ! (k - 1))
        = (case obj (String_nat k) of Some v \<Rightarrow> v | None \<Rightarrow> Fin 0) \<and>
      snd (WorkoutTimelineChart (Val obj) ! (k - 1))
        = (case obj (String_nat k) of Some v \<Rightarrow> v | None \<Rightarrow> Fin 0)) \<and>
   MonthlyStepsChart (Val Map.empty) = map (\<lambda>m. (m, Fin 0)) months \<and>
   WorkoutTimelineChart (Val Map.empty) = map (\<lambda>m. (m, Fin 0)) months \<and>
   MonthlyStepsChart Undefined = map (\<lambda>m. (m, Fin 0)) months \<and>
   WorkoutTimelineChart Undefined = map (\<lambda>m. (m, Fin 0)) months \<and>
   MonthlyStepsChart Null = map (\<lambda>m. (m, Fin 0)) months \<and>
   WorkoutTimelineChart Null = map (\<lambda>m. (m, Fin 0)) months"
proof -
  have s: "MonthlyStepsChart (Val obj) =
      map (\<lambda>(i, m). (m, month_value obj i)) (zip [0..<length months] months)"
    by (simp add: MonthlyStepsChart_def nullish_or_def)
  have w: "WorkoutTimelineChart (Val obj) =
      map (\<lambda>(i, m). (m, month_value obj i)) (zip [0..<length months] months)"
    by (simp add: WorkoutTimelineChart_def nullish_or_def)
  have e: "map (\<lambda>(i, m). (m, month_value Map.empty i)) (zip [0..<length months] months)
      = map (\<lambda>m. (m, Fin 0)) months"
    unfolding month_series by (simp add: months_def)
  have l: "length (map (\<lambda>(i, m). (m, month_value obj i)) (zip [0..<length months] months)) = 12"
    by (simp add: months_def)
  show ?thesis
    unfolding s w
    apply (intro conjI ballI)
             apply (rule month_series)
            apply (rule month_series)
           apply (rule l)
          apply (rule l)
         apply (erule month_series_nth)
        apply (erule month_series_nth)
       apply (simp add: MonthlyStepsChart_def nullish_or_def e)
      apply (simp add: WorkoutTimelineChart_def nullish_or_def e)
     apply (simp add: MonthlyStepsChart_def nullish_or_def e)
    apply (simp add: WorkoutTimelineChart_def nullish_or_def e)
    apply (simp add: MonthlyStepsChart_def nullish_or_def e)
    apply (simp add: WorkoutTimelineChart_def nullish_or_def e)
    done
qed

theorem month_series_transform_witness:
  "(3::nat) \<in> {1..12} \<and>
   MonthlyStepsChart (Val [''3'' \<mapsto> Fin 500]) =
     [(''Jan'', Fin 0), (''Feb'', Fin 0), (''Mar'', Fin 500), (''Apr'', Fin 0),
      (''May'', Fin 0), (''Jun'', Fin 0), (''Jul'', Fin 0), (''Aug'', Fin 0),
      (''Sep'', Fin 0), (''Oct'', Fin 0), (''Nov'', Fin 0), (''Dec'', Fin 0)] \<and>
   snd (MonthlyStepsChart (Val [''3'' \<mapsto> Fin 500]) ! (3 - 1)) = Fin 500 \<and>
   snd (WorkoutTimelineChart (Val [''3'' \<mapsto> Fin 500]) ! (3 - 1)) = Fin 500"
  using month_series_transform [of "[''3'' \<mapsto> Fin 500]"]
  by (simp add: month_keys)

section \<open>The message helpers as a family\<close>

text \<open>
  C3. Each of the eighteen message helpers is a chain of comparisons that ends in a
  \<open>return\<close> of a string literal on every path: it assigns nothing, calls nothing and
  cannot throw, so it is a function of its argument alone. For every argument, the
  infinities and NaN included, and \<open>undefined\<close> and \<open>null\<close> where the parameter is
  optional, the result is one of the listed strings of that helper; for \<open>undefined\<close> and
  \<open>null\<close> it is the helper's fallback string.
\<close>

theorem message_helpers_total:
  "getStepsMessage n \<in>
     {''Whoa... did your sneakers go on vacation? Your couch definitely won this year.'',
      ''You kept things casual'' @ em_dash
        @ ''enough movement to keep the playlists going, but room to roam.'',
      ''You were active! That many steps is basically a never-ending city stroll.'',
      ''Holy moly cuz... that's alot of steps!''} \<and>
   getDistanceMessage n \<in>
     {''That's like walking from Toronto to Minnesota!'',
      ''You covered enough ground to stretch across a couple of countries.'',
      ''Solid grind: that'' @ rsquo
        @ ''s a full-on road trip completed one stride at a time.'',
      ''Every kilometer counts'' @ em_dash
        @ ''keep stacking them and the map won'' @ rsquo @ ''t keep up.''} \<and>
   getFlightsMessage n \<in>
     {''Elevators only? No judgement, but even your smartwatch is side-eyeing you.'',
      ''Steady climbs! You treated stairs like background dancers.'',
      ''You and staircases? Basically on a first-name basis.'',
      ''All this cardio warrants skipping every single leg day''} \<and>
   getBedtimeMessage s \<in>
     {''Bedtime mystery unlocked soon.'',
      ''Night owl confirmed'' @ em_dash @ ''you love the late-night vibes.'',
      ''Pretty tidy bedtime. Your circadian rhythm approves.''} \<and>
   getBedtimeMessage Undefined = ''Bedtime mystery unlocked soon.'' \<and>
   getBedtimeMessage Null = ''Bedtime mystery unlocked soon.'' \<and>
   getWakeMessage s \<in>
     {''Wake time? Still buffering.'',
      ''Early bird energy'' @ em_dash @ ''you probably saw a few sunrises.'',
      ''You vibe with the snooze button and we're here for it.''} \<and>
   getWakeMessage Undefined = ''Wake time? Still buffering.'' \<and>
   getWakeMessage Null = ''Wake time? Still buffering.'' \<and>
   getRestlessNightMessage v \<in>
     {''Quite the restless night!'',
      ''A few tosses and turns, but you made it through.''} \<and>
   getRestlessNightMessage Undefined = ''Quite the restless night!'' \<and>
   getRestlessNightMessage Null = ''Quite the restless night!'' \<and>
   getLongestSleepMessage v \<in>
     {''Quite the slumber.'',
      ''Quite the slumber'' @ em_dash @ ''did you awaken in another era?'',
      ''Big slumber time''} \<and>
   getLongestSleepMessage Undefined = ''Quite the slumber.'' \<and>
   getLongestSleepMessage Null = ''Quite the slumber.'' \<and>
   getShortestSleepMessage v \<in>
     {''Power nap vibes.'', ''Basically a blink LOL'', ''Blink and you missed that night.''} \<and>
   getShortestSleepMessage Undefined = ''Power nap vibes.'' \<and>
   getShortestSleepMessage Null = ''Power nap vibes.'' \<and>
   getRunCountMessage n \<in>
     {''Your running shoes are in mint condition. Maybe too mint.'',
      ''Quality over quantity I suppose.'',
      ''Steady rhythm. Those playlists got some mileage.'',
      ''You basically lived on the leaderboard.''} \<and>
   getLongestRunMessage n \<in>
     {''Marathon-core unlocked. That'' @ rsquo @ ''s an epic long run.'',
      ''Long enough to cross a couple neighborhoods with bragging rights.'',
      ''Bent the corner.''} \<and>
   getFastestPaceMessage v \<in>
     {''Pace radar couldn'' @ rsquo @ ''t lock on'' @ em_dash @ ''mysterious speed!'',
      ''Blazing. You left even the data catching its breath.'',
      ''Swift and smooth'' @ em_dash @ ''you floated through those runs.'',
      ''Vibez and cardio.''} \<and>
   getFastestPaceMessage Undefined =
     ''Pace radar couldn'' @ rsquo @ ''t lock on'' @ em_dash @ ''mysterious speed!'' \<and>
   getFastestPaceMessage Null =
     ''Pace radar couldn'' @ rsquo @ ''t lock on'' @ em_dash @ ''mysterious speed!'' \<and>
   getRunDistanceMessage n \<in>
     {''That's a legit tour of the map. Passport stamps pending.'',
      ''Hundreds of kilometers, countless playlists finished.'',
      ''Every kilometer counts.''} \<and>
   getExerciseMinutesMessage n \<in>
     {''Time is muscle'' @ em_dash @ ''you basically lived in workout mode.'',
      ''Hours kept stackin.'',
      ''Every minute mattered. Warm-up phase complete.''} \<and>
   getCaloriesBurnedMessage n \<in>
     {''That'' @ rsquo @ ''s enough energy to light up the block.'',
      ''Plenty of sweat equity invested this year.'',
      ''A solid burn to get started.''} \<and>
   getStandHoursMessage n \<in>
     {''CHAIRS EXIST BRO'',
      ''You logged serious stand hours; the chair missed you.'',
      ''Baby steps toward less sitting. Keep it up.''} \<and>
   getWorkoutBPMMessage n t \<in>
     {''We hittin heart till failure or what'',
      ''You pushed into the spicy zone whenever it mattered.'',
      ''A composed high'' @ em_dash @ ''power with control.'',
      ''Your baseline intensity is pretty fiery.'',
      ''Smooth operator'',
      ''Chill sessions. Maybe next season gets a remix?''} \<and>
   getAvgWorkoutTimeMessage n \<in>
     {''Sessions long enough to count as mini-epics.'',
      ''Perfectly portioned workouts.'',
      ''Quick hits, maximum efficiency. HIIT energy.''} \<and>
   getAvgCaloriesPerWorkoutMessage n \<in>
     {''Every workout was a blockbuster burn.'',
      ''A consistent burn that kept stacking up.'',
      ''Light and breezy.''}"
  apply (intro conjI)
  apply (simp_all only: insert_iff empty_iff
        getStepsMessage_def getDistanceMessage_def getFlightsMessage_def
        getBedtimeMessage_def getWakeMessage_def getRestlessNightMessage_def
        getLongestSleepMessage_def getShortestSleepMessage_def getRunCountMessage_def
        getLongestRunMessage_def getFastestPaceMessage_def getRunDistanceMessage_def
        getExerciseMinutesMessage_def getCaloriesBurnedMessage_def getStandHoursMessage_def
        getWorkoutBPMMessage_def getAvgWorkoutTimeMessage_def
        getAvgCaloriesPerWorkoutMessage_def falsy_str.simps falsy_num.simps if_True
        split: if_split js_opt.split)
  apply simp_all
  done

theorem message_helpers_total_witness:
  "getStepsMessage (Fin 600000) \<in>
     {''Whoa... did your sneakers go on vacation? Your couch definitely won this year.'',
      ''You kept things casual'' @ em_dash
        @ ''enough movement to keep the playlists going, but room to roam.'',
      ''You were active! That many steps is basically a never-ending city stroll.'',
      ''Holy moly cuz... that's alot of steps!''} \<and>
   getBedtimeMessage (Val ''23:30'') \<in>
     {''Bedtime mystery unlocked soon.'',
      ''Night owl confirmed'' @ em_dash @ ''you love the late-night vibes.'',
      ''Pretty tidy bedtime. Your circadian rhythm approves.''} \<and>
   getBedtimeMessage Undefined = ''Bedtime mystery unlocked soon.'' \<and>
   getWakeMessage Null = ''Wake time? Still buffering.'' \<and>
   getWorkoutBPMMessage (Fin 600000) avg \<in>
     {''We hittin heart till failure or what'',
      ''You pushed into the spicy zone whenever it mattered.'',
      ''A composed high'' @ em_dash @ ''power with control.'',
      ''Your baseline intensity is pretty fiery.'',
      ''Smooth operator'',
      ''Chill sessions. Maybe next season gets a remix?''}"
  using message_helpers_total [of "Fin 600000" "Val ''23:30''" "Val (Fin 7)" avg]
  by (elim conjE) (intro conjI, assumption+)

text \<open>
  C8. The four helpers with an optional Number test it with \<open>!x\<close>, which holds of 0 as
  it does of \<open>undefined\<close> and \<open>null\<close>: for 0 each returns its fallback string, while every
  other value of the lowest range gets that range's string, which is a different one.
\<close>

theorem zero_is_missing:
  "getRestlessNightMessage (Val (Fin 0)) = getRestlessNightMessage Undefined \<and>
   getRestlessNightMessage (Val (Fin 0)) = getRestlessNightMessage Null \<and>
   getRestlessNightMessage (Val (Fin 0)) = ''Quite the restless night!'' \<and>
   (x \<noteq> 0 \<and> x \<le> 10 \<longrightarrow>
      getRestlessNightMessage (Val (Fin x))
        = ''A few tosses and turns, but you made it through.'' \<and>
      getRestlessNightMessage (Val (Fin 0)) \<noteq> getRestlessNightMessage (Val (Fin x))) \<and>
   getLongestSleepMessage (Val (Fin 0)) = getLongestSleepMessage Undefined \<and>
   getLongestSleepMessage (Val (Fin 0)) = getLongestSleepMessage Null \<and>
   getLongestSleepMessage (Val (Fin 0)) = ''Quite the slumber.'' \<and>
   (x \<noteq> 0 \<and> x < 12 \<longrightarrow>
      getLongestSleepMessage (Val (Fin x)) = ''Big slumber time'' \<and>
      getLongestSleepMessage (Val (Fin 0)) \<noteq> getLongestSleepMessage (Val (Fin x))) \<and>
   getShortestSleepMessage (Val (Fin 0)) = getShortestSleepMessage Undefined \<and>
   getShortestSleepMessage (Val (Fin 0)) = getShortestSleepMessage Null \<and>
   getShortestSleepMessage (Val (Fin 0)) = ''Power nap vibes.'' \<and>
   (x \<noteq> 0 \<and> x \<le> 3 \<longrightarrow>
      getShortestSleepMessage (Val (Fin x)) = ''Basically a blink LOL'' \<and>
      getShortestSleepMessage (Val (Fin 0)) \<noteq> getShortestSleepMessage (Val (Fin x))) \<and>
   getFastestPaceMessage (Val (Fin 0)) = getFastestPaceMessage Undefined \<and>
   getFastestPaceMessage (Val (Fin 0)) = getFastestPaceMessage Null \<and>
   getFastestPaceMessage (Val (Fin 0)) =
     ''Pace radar couldn'' @ rsquo @ ''t lock on'' @ em_dash @ ''mysterious speed!'' \<and>
   (x \<noteq> 0 \<and> x < 4 \<longrightarrow>
      getFastestPaceMessage (Val (Fin x))
        = ''Blazing. You left even the data catching its breath.'' \<and>
      getFastestPaceMessage (Val (Fin 0)) \<noteq> getFastestPaceMessage (Val (Fin x)))"
  by (simp add: getRestlessNightMessage_def getLongestSleepMessage_def
        getShortestSleepMessage_def getFastestPaceMessage_def num_gt_def num_ge_def
        num_le_def rsquo_def)

theorem zero_is_missing_witness:
  "(1::rat) \<noteq> 0 \<and> (1::rat) \<le> 10 \<and> (1::rat) < 12 \<and> (1::rat) \<le> 3 \<and> (1::rat) < 4 \<and>
   getRestlessNightMessage (Val (Fin 1)) = ''A few tosses and turns, but you made it through.'' \<and>
   getRestlessNightMessage (Val (Fin 0)) = ''Quite the restless night!'' \<and>
   getLongestSleepMessage (Val (Fin 1)) = ''Big slumber time'' \<and>
   getLongestSleepMessage (Val (Fin 0)) = ''Quite the slumber.'' \<and>
   getShortestSleepMessage (Val (Fin 1)) = ''Basically a blink LOL'' \<and>
   getShortestSleepMessage (Val (Fin 0)) = ''Power nap vibes.'' \<and>
   getFastestPaceMessage (Val (Fin 1)) = ''Blazing. You left even the data catching its breath.''"
proof -
  have h: "(1::rat) \<noteq> 0 \<and> (1::rat) \<le> 10 \<and> (1::rat) < 12 \<and> (1::rat) \<le> 3 \<and> (1::rat) < 4"
    by simp
  from h zero_is_missing [of 1] show ?thesis by blast
qed

section \<open>Cards with absent fields\<close>

text \<open>
  C4. With \<open>fastest_pace_min_per_km\<close> null, the Running tile of the final summary shows
  the dash placeholder, but the Fastest Pace run card interpolates the field unguarded:
  its value is the text "null min/km", next to the fallback note.
\<close>

theorem fastest_pace_null_rendering:
  "card_value (run_cards_slide P (d\<lparr>fastest_pace_min_per_km := Null\<rparr>) ! 1) = ''null min/km'' \<and>
   card_note (run_cards_slide P (d\<lparr>fastest_pace_min_per_km := Null\<rparr>) ! 1)
     = Some (''Pace radar couldn'' @ rsquo @ ''t lock on'' @ em_dash @ ''mysterious speed!'') \<and>
   tile_stat (final_summary (render_page P (d\<lparr>fastest_pace_min_per_km := Null\<rparr>)) ! 2) = em_dash"
  by (simp add: run_cards_slide_def RunCard_def template_num_def render_page_def
        FinalSummarySlide_def SummaryTile_def nullish_def getFastestPaceMessage_def
        when_truthy_def rsquo_def)

text \<open>
  C6. With \<open>shortest_sleep_night\<close> undefined (or null), the Shortest Sleep card is
  rendered: the duration in its value is the literal "N/A", its note is the fallback
  string of \<open>getShortestSleepMessage\<close>, and it has no footer. Every read of the night
  goes through \<open>?.\<close>, so no read can throw.
\<close>

theorem shortest_sleep_missing:
  "shortest_sleep_night d = Undefined \<or> shortest_sleep_night d = Null \<Longrightarrow>
     sleep_nights_slide P d ! 2 =
       \<lparr>card_label = ''Shortest Sleep'', card_value = ''N/A'' @ '' hrs'',
        card_note = Some ''Power nap vibes.'', card_footer = None\<rparr>"
  by (auto simp: sleep_nights_slide_def SleepCard_def template_num_or_def opt_chain_def
        getShortestSleepMessage_def when_truthy_def)

theorem shortest_sleep_missing_witness:
  "(shortest_sleep_night (example_payload\<lparr>shortest_sleep_night := Undefined\<rparr>) = Undefined \<or>
    shortest_sleep_night (example_payload\<lparr>shortest_sleep_night := Undefined\<rparr>) = Null) \<and>
   sleep_nights_slide example_host (example_payload\<lparr>shortest_sleep_night := Undefined\<rparr>) ! 2 =
     \<lparr>card_label = ''Shortest Sleep'', card_value = ''N/A hrs'',
      card_note = Some ''Power nap vibes.'', card_footer = None\<rparr>"
proof -
  have h: "shortest_sleep_night (example_payload\<lparr>shortest_sleep_night := Undefined\<rparr>) = Undefined \<or>
    shortest_sleep_night (example_payload\<lparr>shortest_sleep_night := Undefined\<rparr>) = Null"
    by simp
  from shortest_sleep_missing [OF h, of example_host] h show ?thesis by simp
qed

section \<open>The distance in runs\<close>

lemma digit_char_mod: "digit_char (n mod 10) = digit_char n"
  by (simp add: digit_char_def)

lemma String_nat_small: "n < 10 \<Longrightarrow> String_nat n = [digit_char n]"
  by (subst String_nat.simps) simp

lemma String_nat_large:
  "10 \<le> n \<Longrightarrow> String_nat n = String_nat (n div 10) @ [digit_char n]"
  by (subst String_nat.simps) (simp add: digit_char_mod)

lemma String_nat_nonempty: "String_nat n \<noteq> []"
  by (subst String_nat.simps) simp

lemma String_nat_100:
  assumes "100 \<le> n"
  shows "String_nat n = String_nat (n div 100) @ [digit_char (n div 10), digit_char n]"
proof -
  have a: "10 \<le> n" and b: "10 \<le> n div 10" using assms by simp_all
  have c: "n div 10 div 10 = n div 100" by (simp add: div_mult2_eq [symmetric])
  show ?thesis
    by (simp add: String_nat_large [OF a] String_nat_large [OF b] c)
qed

lemma fixed_two_digits:
  "(let m = String_nat n;
        z = (if length m \<le> 2 then replicate (2 + 1 - length m) CHR ''0'' @ m else m);
        k = length z
    in take (k - 2) z @ ''.'' @ drop (k - 2) z)
   = String_nat (n div 100) @ ''.'' @ [digit_char (n div 10), digit_char n]"
proof -
  consider "n < 10" | "10 \<le> n" "n < 100" | "100 \<le> n" by linarith
  then show ?thesis
  proof cases
    case 1
    then have "n div 100 = 0" "n div 10 = 0" by simp_all
    then show ?thesis using 1
      by (simp add: String_nat_small String_nat_numeral digit_char_def)
  next
    case 2
    then have z: "n div 100 = 0" and s: "n div 10 < 10" by simp_all
    show ?thesis
      by (simp add: String_nat_large [OF 2(1)] String_nat_small [OF s] z String_nat_numeral)
  next
    case 3
    show ?thesis by (simp add: String_nat_100 [OF 3] String_nat_nonempty Let_def)
  qed
qed

lemma toFixed_2:
  assumes "\<bar>r\<bar> < 10 ^ 21"
  shows "toFixed P (Fin r) 2 =
           (if r < 0 then ''-'' else []) @ String_nat (nat \<lfloor>\<bar>r\<bar> * 100 + 1 / 2\<rfloor> div 100) @ ''.''
             @ [digit_char (nat \<lfloor>\<bar>r\<bar> * 100 + 1 / 2\<rfloor> div 10),
                digit_char (nat \<lfloor>\<bar>r\<bar> * 100 + 1 / 2\<rfloor>)]"
proof -
  have n: "\<not> 10 ^ 21 \<le> \<bar>r\<bar>" using assms by simp
  show ?thesis
    using fixed_two_digits [of "nat \<lfloor>\<bar>r\<bar> * 100 + 1 / 2\<rfloor>"] n
    by (simp add: toFixed_def Let_def)
qed

lemma toFixed_zero: "toFixed P (Fin 0) 2 = ''0.00''"
  by (simp add: toFixed_def String_nat_numeral floor_rat_numeral digit_char_def)

text \<open>
  C10. The value of the Distance in Runs card is \<open>toFixed(2)\<close> of the left-to-right sum
  of \<open>run_distances\<close>, started at 0, followed by " km". When \<open>run_distances\<close> is undefined
  or null the sum runs over the empty list and the card shows "0.00 km"; nothing on the
  way can throw. When the sum is finite and below 10^21 in size, the text is an optional
  minus sign, the digits of the hundredths rounded half up divided by 100, a point, and
  exactly two digits.
\<close>

theorem run_distance_total:
  "totalRunDistance P d =
     toFixed P (foldl (num_add P) (Fin 0) (case run_distances d of Val xs \<Rightarrow> xs | _ \<Rightarrow> [])) 2 \<and>
   card_value (run_cards_slide P d ! 2) = totalRunDistance P d @ '' km'' \<and>
   (run_distances d = Undefined \<or> run_distances d = Null \<longrightarrow>
      totalRunDistance P d = ''0.00'' \<and> card_value (run_cards_slide P d ! 2) = ''0.00 km'') \<and>
   (foldl (num_add P) (Fin 0) (case run_distances d of Val xs \<Rightarrow> xs | _ \<Rightarrow> []) = Fin r
      \<and> \<bar>r\<bar> < 10 ^ 21 \<longrightarrow>
      totalRunDistance P d =
        (if r < 0 then ''-'' else []) @ String_nat (nat \<lfloor>\<bar>r\<bar> * 100 + 1 / 2\<rfloor> div 100) @ ''.''
          @ [digit_char (nat \<lfloor>\<bar>r\<bar> * 100 + 1 / 2\<rfloor> div 10),
             digit_char (nat \<lfloor>\<bar>r\<bar> * 100 + 1 / 2\<rfloor>)])"
proof (intro conjI impI)
  show t: "totalRunDistance P d =
     toFixed P (foldl (num_add P) (Fin 0) (case run_distances d of Val xs \<Rightarrow> xs | _ \<Rightarrow> [])) 2"
    by (simp add: totalRunDistance_def nullish_or_def)
  show c: "card_value (run_cards_slide P d ! 2) = totalRunDistance P d @ '' km''"
    by (simp add: run_cards_slide_def RunCard_def)
  {
    assume a: "run_distances d = Undefined \<or> run_distances d = Null"
    then show z: "totalRunDistance P d = ''0.00''"
      unfolding t by (auto simp: toFixed_zero)
    show "card_value (run_cards_slide P d ! 2) = ''0.00 km''"
      unfolding c z by simp
  }
  {
    assume "foldl (num_add P) (Fin 0) (case run_distances d of Val xs \<Rightarrow> xs | _ \<Rightarrow> []) = Fin r
      \<and> \<bar>r\<bar> < 10 ^ 21"
    then show "totalRunDistance P d =
        (if r < 0 then ''-'' else []) @ String_nat (nat \<lfloor>\<bar>r\<bar> * 100 + 1 / 2\<rfloor> div 100) @ ''.''
          @ [digit_char (nat \<lfloor>\<bar>r\<bar> * 100 + 1 / 2\<rfloor> div 10),
             digit_char (nat \<lfloor>\<bar>r\<bar> * 100 + 1 / 2\<rfloor>)]"
      unfolding t by (simp add: toFixed_2)
  }
qed

theorem run_distance_total_witness:
  "(run_distances (example_payload\<lparr>run_distances := Null\<rparr>) = Undefined \<or>
    run_distances (example_payload\<lparr>run_distances := Null\<rparr>) = Null) \<and>
   card_value (run_cards_slide example_host (example_payload\<lparr>run_distances := Null\<rparr>) ! 2)
     = ''0.00 km'' \<and>
   foldl (num_add example_host) (Fin 0)
     (case run_distances example_payload of Val xs \<Rightarrow> xs | _ \<Rightarrow> []) = Fin (61 / 4) \<and>
   \<bar>61 / 4 :: rat\<bar> < 10 ^ 21 \<and>
   totalRunDistance example_host example_payload = ''15.25'' \<and>
   card_value (run_cards_slide example_host example_payload ! 2) = ''15.25 km''"
proof -
  have h: "run_distances (example_payload\<lparr>run_distances := Null\<rparr>) = Undefined \<or>
    run_distances (example_payload\<lparr>run_distances := Null\<rparr>) = Null"
    by simp
  have g: "foldl (num_add example_host) (Fin 0)
     (case run_distances example_payload of Val xs \<Rightarrow> xs | _ \<Rightarrow> []) = Fin (61 / 4)
      \<and> \<bar>61 / 4 :: rat\<bar> < 10 ^ 21"
    by (simp add: example_payload_def example_host_def)
  have v: "(if (61 / 4 :: rat) < 0 then ''-'' else [])
      @ String_nat (nat \<lfloor>\<bar>61 / 4 :: rat\<bar> * 100 + 1 / 2\<rfloor> div 100) @ ''.''
      @ [digit_char (nat \<lfloor>\<bar>61 / 4 :: rat\<bar> * 100 + 1 / 2\<rfloor> div 10),
         digit_char (nat \<lfloor>\<bar>61 / 4 :: rat\<bar> * 100 + 1 / 2\<rfloor>)] = ''15.25''"
    by (simp add: floor_rat_numeral String_nat_numeral digit_char_def)
  note a = run_distance_total [of example_host "example_payload\<lparr>run_distances := Null\<rparr>" 0]
  note b = run_distance_total [of example_host example_payload "61 / 4"]
  have 1: "card_value (run_cards_slide example_host (example_payload\<lparr>run_distances := Null\<rparr>) ! 2)
     = ''0.00 km''"
    using a h by blast
  have f: "totalRunDistance example_host example_payload =
      (if (61 / 4 :: rat) < 0 then ''-'' else [])
      @ String_nat (nat \<lfloor>\<bar>61 / 4 :: rat\<bar> * 100 + 1 / 2\<rfloor> div 100) @ ''.''
      @ [digit_char (nat \<lfloor>\<bar>61 / 4 :: rat\<bar> * 100 + 1 / 2\<rfloor> div 10),
         digit_char (nat \<lfloor>\<bar>61 / 4 :: rat\<bar> * 100 + 1 / 2\<rfloor>)]"
    using b g by blast
  have 2: "totalRunDistance example_host example_payload = ''15.25''"
    by (rule trans [OF f v])
  have c: "card_value (run_cards_slide example_host example_payload ! 2)
      = totalRunDistance example_host example_payload @ '' km''"
    using b by blast
  have 3: "card_value (run_cards_slide example_host example_payload ! 2) = ''15.25 km''"
    by (simp add: c 2)
  from h g 1 2 3 show ?thesis by blast
qed

section \<open>String keys and Number keys of a month object\<close>

lemma digit_char_inj: "digit_char a = digit_char b \<Longrightarrow> a mod 10 = b mod 10"
proof -
  assume h: "digit_char a = digit_char b"
  have d: "distinct ''0123456789''" by simp
  have "a mod 10 < length ''0123456789''" "b mod 10 < length ''0123456789''" by simp_all
  with d h show ?thesis
    unfolding digit_char_def by (simp only: nth_eq_iff_index_eq)
qed

lemma String_nat_inj: "String_nat a = String_nat b \<Longrightarrow> a = b"
proof (induction a arbitrary: b rule: String_nat.induct)
  case (1 n)
  show ?case
  proof (cases "n < 10")
    case True
    show ?thesis
    proof (cases "b < 10")
      case b: True
      from "1.prems" True b have "digit_char n = digit_char b"
        by (simp add: String_nat_small)
      then have "n mod 10 = b mod 10" by (rule digit_char_inj)
      with True b show ?thesis by simp
    next
      case b: False
      from "1.prems" True b show ?thesis
        by (simp add: String_nat_small String_nat_large String_nat_nonempty String_nat_nonempty [symmetric])
    qed
  next
    case False
    show ?thesis
    proof (cases "b < 10")
      case b: True
      from "1.prems" False b show ?thesis
        by (simp add: String_nat_small String_nat_large String_nat_nonempty String_nat_nonempty [symmetric])
    next
      case b: False
      from "1.prems" False b
      have e: "String_nat (n div 10) = String_nat (b div 10)" and c: "digit_char n = digit_char b"
        by (simp_all add: String_nat_large)
      from "1.IH" [OF False e] have "n div 10 = b div 10" .
      moreover from c have "n mod 10 = b mod 10" by (rule digit_char_inj)
      ultimately show ?thesis by (metis div_mult_mod_eq)
    qed
  qed
qed

lemma object_of_entries_snoc:
  "object_of_entries (kvs @ [(k, v)]) = (object_of_entries kvs)(k \<mapsto> v)"
  by (simp add: object_of_entries_def)

lemma string_keyed_lookup:
  "object_of_entries (string_keyed kvs) (String_nat k) = object_of_entries kvs k"
proof (induction kvs rule: rev_induct)
  case Nil
  show ?case by (simp add: object_of_entries_def string_keyed_def)
next
  case (snoc x xs)
  obtain a v where x: "x = (a, v)" by (cases x)
  have s: "string_keyed (xs @ [(a, v)]) = string_keyed xs @ [(String_nat a, v)]"
    by (simp add: string_keyed_def)
  show ?case
    unfolding x s object_of_entries_snoc
    using snoc.IH String_nat_inj [of a k] by auto
qed

lemma upt_months: "[1..<13] = [1, 2, 3, 4, 5, 6, 7, 8, 9, 10, 11, 12 :: nat]"
  by code_simp

lemma spec_series_of_keys:
  assumes "\<And>k. obj (String_nat k) = m k"
  shows "map (\<lambda>(mn, key). (mn, case obj key of Some v \<Rightarrow> v | None \<Rightarrow> Fin 0))
       [(''Jan'', ''1''), (''Feb'', ''2''), (''Mar'', ''3''), (''Apr'', ''4''),
        (''May'', ''5''), (''Jun'', ''6''), (''Jul'', ''7''), (''Aug'', ''8''),
        (''Sep'', ''9''), (''Oct'', ''10''), (''Nov'', ''11''), (''Dec'', ''12'')]
     = spec_month_series m"
proof -
  have f: "obj ''1'' = m 1" "obj ''2'' = m 2" "obj ''3'' = m 3" "obj ''4'' = m 4"
    "obj ''5'' = m 5" "obj ''6'' = m 6" "obj ''7'' = m 7" "obj ''8'' = m 8"
    "obj ''9'' = m 9" "obj ''10'' = m 10" "obj ''11'' = m 11" "obj ''12'' = m 12"
    using assms [of 1] assms [of 2] assms [of 3] assms [of 4] assms [of 5] assms [of 6]
      assms [of 7] assms [of 8] assms [of 9] assms [of 10] assms [of 11] assms [of 12]
    by (simp_all add: month_keys)
  show ?thesis
    unfolding spec_month_series_def upt_months
    by (simp add: months_def f)
qed

lemma chart_series:
  "MonthlyStepsChart (Val obj) =
     map (\<lambda>(mn, key). (mn, case obj key of Some v \<Rightarrow> v | None \<Rightarrow> Fin 0))
       [(''Jan'', ''1''), (''Feb'', ''2''), (''Mar'', ''3''), (''Apr'', ''4''),
        (''May'', ''5''), (''Jun'', ''6''), (''Jul'', ''7''), (''Aug'', ''8''),
        (''Sep'', ''9''), (''Oct'', ''10''), (''Nov'', ''11''), (''Dec'', ''12'')]"
  "WorkoutTimelineChart (Val obj) =
     map (\<lambda>(mn, key). (mn, case obj key of Some v \<Rightarrow> v | None \<Rightarrow> Fin 0))
       [(''Jan'', ''1''), (''Feb'', ''2''), (''Mar'', ''3''), (''Apr'', ''4''),
        (''May'', ''5''), (''Jun'', ''6''), (''Jul'', ''7''), (''Aug'', ''8''),
        (''Sep'', ''9''), (''Oct'', ''10''), (''Nov'', ''11''), (''Dec'', ''12'')]"
  by (simp_all add: MonthlyStepsChart_def WorkoutTimelineChart_def nullish_or_def month_series)

lemma chart_nth:
  assumes "k \<in> {1..12}"
  shows "snd (MonthlyStepsChart (Val obj) ! (k - 1))
           = (case obj (String_nat k) of Some v \<Rightarrow> v | None \<Rightarrow> Fin 0)"
    and "snd (WorkoutTimelineChart (Val obj) ! (k - 1))
           = (case obj (String_nat k) of Some v \<Rightarrow> v | None \<Rightarrow> Fin 0)"
  using month_series_nth [OF assms, of obj]
  by (simp_all add: MonthlyStepsChart_def WorkoutTimelineChart_def nullish_or_def)

text \<open>
  C9. The transform reads each month first with the Number \<open>idx\<close> as key and then with
  the String \<open>String(idx)\<close>; both reads are reads of the property named \<open>String(idx)\<close>.
  For an object whose keys are the String forms of the keys of a month mapping, a read
  with the Number \<open>k\<close> gives what the mapping has at \<open>k\<close>, and both charts get the series
  that the specification gives for the mapping itself: twelve entries Jan to Dec, the
  value of month \<open>k\<close> at index \<open>k - 1\<close>. For any object, the entry of month \<open>k\<close> is the
  stored value when the property is there, and 0 only when it is not.
\<close>

theorem month_lookup_keys:
  "month_value obj i =
     (case get_by_number obj (i + 1) of
        Val v \<Rightarrow> v
      | _ \<Rightarrow> (case get_by_string obj (String_nat (i + 1)) of Val v \<Rightarrow> v | _ \<Rightarrow> Fin 0)) \<and>
   get_by_number obj idx = get_by_string obj (String_nat idx) \<and>
   get_by_number (object_of_entries (string_keyed kvs)) idx
     = (case object_of_entries kvs idx of Some v \<Rightarrow> Val v | None \<Rightarrow> Undefined) \<and>
   MonthlyStepsChart (Val (object_of_entries (string_keyed kvs)))
     = spec_month_series (object_of_entries kvs) \<and>
   WorkoutTimelineChart (Val (object_of_entries (string_keyed kvs)))
     = spec_month_series (object_of_entries kvs) \<and>
   length (spec_month_series (object_of_entries kvs)) = 12 \<and>
   (k \<in> {1..12} \<and> obj (String_nat k) = Some v \<longrightarrow>
      snd (MonthlyStepsChart (Val obj) ! (k - 1)) = v \<and>
      snd (WorkoutTimelineChart (Val obj) ! (k - 1)) = v) \<and>
   (k \<in> {1..12} \<and> obj (String_nat k) = None \<longrightarrow>
      snd (MonthlyStepsChart (Val obj) ! (k - 1)) = Fin 0 \<and>
      snd (WorkoutTimelineChart (Val obj) ! (k - 1)) = Fin 0)"
proof (intro conjI impI)
  show "month_value obj i =
     (case get_by_number obj (i + 1) of
        Val v \<Rightarrow> v
      | _ \<Rightarrow> (case get_by_string obj (String_nat (i + 1)) of Val v \<Rightarrow> v | _ \<Rightarrow> Fin 0))"
    by (simp add: month_value_def nullish_or_def nullish_def split: js_opt.splits)
  show "get_by_number obj idx = get_by_string obj (String_nat idx)"
    by (simp add: get_by_number_def get_by_string_def)
  show "get_by_number (object_of_entries (string_keyed kvs)) idx
     = (case object_of_entries kvs idx of Some v \<Rightarrow> Val v | None \<Rightarrow> Undefined)"
    by (simp add: get_by_number_def string_keyed_lookup)
  show "MonthlyStepsChart (Val (object_of_entries (string_keyed kvs)))
     = spec_month_series (object_of_entries kvs)"
    unfolding chart_series by (rule spec_series_of_keys) (rule string_keyed_lookup)
  show "WorkoutTimelineChart (Val (object_of_entries (string_keyed kvs)))
     = spec_month_series (object_of_entries kvs)"
    unfolding chart_series by (rule spec_series_of_keys) (rule string_keyed_lookup)
  show "length (spec_month_series (object_of_entries kvs)) = 12"
    by (simp add: spec_month_series_def)
next
  assume a: "k \<in> {1..12} \<and> obj (String_nat k) = Some v"
  then have k: "k \<in> {1..12}" and o: "obj (String_nat k) = Some v" by simp_all
  show "snd (MonthlyStepsChart (Val obj) ! (k - 1)) = v"
    unfolding chart_nth [OF k] o by simp
  show "snd (WorkoutTimelineChart (Val obj) ! (k - 1)) = v"
    unfolding chart_nth [OF k] o by simp
next
  assume a: "k \<in> {1..12} \<and> obj (String_nat k) = None"
  then have k: "k \<in> {1..12}" and o: "obj (String_nat k) = None" by simp_all
  show "snd (MonthlyStepsChart (Val obj) ! (k - 1)) = Fin 0"
    unfolding chart_nth [OF k] o by simp
  show "snd (WorkoutTimelineChart (Val obj) ! (k - 1)) = Fin 0"
    unfolding chart_nth [OF k] o by simp
qed

theorem month_lookup_keys_witness:
  "(3::nat) \<in> {1..12} \<and>
   object_of_entries [(''3'', Fin 500)] (String_nat 3) = Some (Fin 500) \<and>
   (1::nat) \<in> {1..12} \<and>
   object_of_entries [(''3'', Fin 500)] (String_nat 1) = None \<and>
   snd (MonthlyStepsChart (Val (object_of_entries [(''3'', Fin 500)])) ! (3 - 1)) = Fin 500 \<and>
   snd (MonthlyStepsChart (Val (object_of_entries [(''3'', Fin 500)])) ! (1 - 1)) = Fin 0 \<and>
   string_keyed [(3, Fin 500)] = [(''3'', Fin 500)] \<and>
   MonthlyStepsChart (Val (object_of_entries [(''3'', Fin 500)]))
     = spec_month_series (object_of_entries [(3, Fin 500)]) \<and>
   spec_month_series (object_of_entries [(3, Fin 500)]) =
     [(''Jan'', Fin 0), (''Feb'', Fin 0), (''Mar'', Fin 500), (''Apr'', Fin 0),
      (''May'', Fin 0), (''Jun'', Fin 0), (''Jul'', Fin 0), (''Aug'', Fin 0),
      (''Sep'', Fin 0), (''Oct'', Fin 0), (''Nov'', Fin 0), (''Dec'', Fin 0)]"
proof -
  have p: "(3::nat) \<in> {1..12} \<and> object_of_entries [(''3'', Fin 500)] (String_nat 3) = Some (Fin 500)"
    by (simp add: object_of_entries_def month_keys)
  have a: "(1::nat) \<in> {1..12} \<and> object_of_entries [(''3'', Fin 500)] (String_nat 1) = None"
    by (simp add: object_of_entries_def month_keys)
  have s: "string_keyed [(3, Fin 500)] = [(''3'', Fin 500)]"
    by (simp add: string_keyed_def month_keys)
  have e: "spec_month_series (object_of_entries [(3, Fin 500)]) =
     [(''Jan'', Fin 0), (''Feb'', Fin 0), (''Mar'', Fin 500), (''Apr'', Fin 0),
      (''May'', Fin 0), (''Jun'', Fin 0), (''Jul'', Fin 0), (''Aug'', Fin 0),
      (''Sep'', Fin 0), (''Oct'', Fin 0), (''Nov'', Fin 0), (''Dec'', Fin 0)]"
    unfolding spec_month_series_def upt_months by (simp add: months_def object_of_entries_def)
  note t3 = month_lookup_keys [of "object_of_entries [(''3'', Fin 500)]" 2 3 "[(3, Fin 500)]" 3 "Fin 500"]
  note t1 = month_lookup_keys [of "object_of_entries [(''3'', Fin 500)]" 0 1 "[(3, Fin 500)]" 1 "Fin 500"]
  have 1: "snd (MonthlyStepsChart (Val (object_of_entries [(''3'', Fin 500)])) ! (3 - 1)) = Fin 500"
    using t3 p by blast
  have 2: "snd (MonthlyStepsChart (Val (object_of_entries [(''3'', Fin 500)])) ! (1 - 1)) = Fin 0"
    using t1 a by blast
  have 3: "MonthlyStepsChart (Val (object_of_entries [(''3'', Fin 500)]))
     = spec_month_series (object_of_entries [(3, Fin 500)])"
    using t3 unfolding s by blast
  from p a 1 2 s 3 e show ?thesis by blast
qed

section \<open>The life of the fetched snapshot\<close>

lemma run_Nil: "run s [] = s"
  by (simp add: run_def)

lemma run_Cons: "run s (e # evs) = run (step s e) evs"
  by (simp add: run_def)

lemma run_append: "run s (xs @ ys) = run (run s xs) ys"
  by (simp add: run_def)

lemma effect_settle_fulfilled: "fst (effect_settle r s) = Inr ()"
  by (simp add: effect_settle_def split: sum.splits)

lemma failed_chain: "fetch_failed r \<Longrightarrow> \<exists>x. then_promise r json = Inl x"
  by (cases r rule: fetch_failed.cases) (simp_all add: then_promise_def)

lemma step_keeps_data: "\<not> delivers_data e \<Longrightarrow> data (step s e) = data s"
proof (cases e)
  case (Settle r)
  assume "\<not> delivers_data e"
  with Settle have "fetch_failed r" by simp
  from failed_chain [OF this] Settle show ?thesis
    by (auto simp: effect_settle_def)
qed (simp_all add: effect_issue_def)

lemma run_keeps_data: "\<forall>e\<in>set evs. \<not> delivers_data e \<Longrightarrow> data (run s evs) = data s"
  by (induction evs arbitrary: s) (simp_all add: run_Nil run_Cons step_keeps_data)

lemma step_requests:
  "requests (step s e) = requests s @ (if e = Mount then [wrapped_request] else [])"
  by (cases e) (simp_all add: effect_issue_def effect_settle_def split: sum.splits)

lemma run_requests:
  "requests (run s evs) = requests s @ replicate (count_list evs Mount) wrapped_request"
proof (induction evs arbitrary: s)
  case Nil
  show ?case by (simp add: run_Nil)
next
  case (Cons e evs)
  show ?case
    by (simp add: run_Cons Cons.IH step_requests replicate_app_Cons_same)
qed

lemma quiet_run:
  "Mount \<notin> set xs \<Longrightarrow> realizable 0 (xs @ ys) \<Longrightarrow> run s xs = s \<and> realizable 0 ys"
proof (induction xs)
  case Nil
  then show ?case by (simp add: run_Nil)
next
  case (Cons e xs)
  then show ?case by (cases e) (simp_all add: run_Cons)
qed

lemma one_pending_run:
  "Mount \<notin> set xs \<Longrightarrow> realizable (Suc 0) (xs @ ys) \<Longrightarrow>
     (run s xs = s \<and> realizable (Suc 0) ys) \<or> realizable 0 ys"
proof (induction xs)
  case Nil
  then show ?case by (simp add: run_Nil)
next
  case (Cons e xs)
  show ?case
  proof (cases e)
    case Mount
    with Cons.prems show ?thesis by simp
  next
    case (Settle r)
    with Cons.prems have "Mount \<notin> set xs" "realizable 0 (xs @ ys)" by simp_all
    from quiet_run [OF this] show ?thesis by simp
  next
    case Rerender
    with Cons show ?thesis by (simp add: run_Cons)
  qed
qed

lemma failed_settle:
  "fetch_failed r \<Longrightarrow> \<exists>e. run initial [Mount, Settle r] =
     \<lparr>data = None, console_error = [(''Failed to fetch wrapped data:'', e)],
      requests = [wrapped_request]\<rparr>"
  by (cases r rule: fetch_failed.cases)
     (simp_all add: run_def initial_def effect_issue_def effect_settle_def then_promise_def)

lemma resolved_settle:
  "run initial [Mount, Settle (Inr (Response (Inr j)))] =
     \<lparr>data = Some j, console_error = [], requests = [wrapped_request]\<rparr>"
  by (simp add: run_def initial_def effect_issue_def effect_settle_def then_promise_def)

text \<open>
  C5. The promise chain of the effect always ends fulfilled, whatever the fetch did, so no
  rejection is left unhandled. When the fetch fails, by a network error or by a body that
  is not JSON, the view is the loading text after any further events that deliver no
  payload, and no request is added as long as the effect does not run again. On the runs
  in which the effect does not run again, the view stays the loading text for good, the
  one request stays the only one, and the error has been logged exactly once. The view is
  the loading text as well after any events none of which delivers the payload, in
  particular before the fetch settles.
\<close>

theorem fetch_failure_keeps_loading:
  "fst (effect_settle r s) = Inr () \<and>
   (fetch_failed r \<and> (\<forall>e\<in>set evs. \<not> delivers_data e) \<longrightarrow>
      Home P (run (run initial [Mount, Settle r]) evs)
        = Loading (''Loading your Wrapped'' @ hellip)) \<and>
   (fetch_failed r \<and> Mount \<notin> set evs \<longrightarrow>
      requests (run (run initial [Mount, Settle r]) evs)
        = [\<lparr>req_method = ''GET'', req_url = ''http://127.0.0.1:8000/wrapped''\<rparr>]) \<and>
   (fetch_failed r \<and> Mount \<notin> set evs \<and> realizable 0 ([Mount, Settle r] @ evs) \<longrightarrow>
      Home P (run (run initial [Mount, Settle r]) evs)
        = Loading (''Loading your Wrapped'' @ hellip) \<and>
      requests (run (run initial [Mount, Settle r]) evs)
        = [\<lparr>req_method = ''GET'', req_url = ''http://127.0.0.1:8000/wrapped''\<rparr>] \<and>
      (\<exists>e. console_error (run (run initial [Mount, Settle r]) evs)
             = [(''Failed to fetch wrapped data:'', e)])) \<and>
   ((\<forall>e\<in>set evs. \<not> delivers_data e) \<longrightarrow>
      Home P (run initial evs) = Loading (''Loading your Wrapped'' @ hellip))"
proof (intro conjI impI)
  show "fst (effect_settle r s) = Inr ()" by (rule effect_settle_fulfilled)
next
  assume a: "fetch_failed r \<and> (\<forall>e\<in>set evs. \<not> delivers_data e)"
  then have "\<forall>e\<in>set ([Mount, Settle r] @ evs). \<not> delivers_data e" by simp
  then have "data (run initial ([Mount, Settle r] @ evs)) = data initial"
    by (rule run_keeps_data)
  then have "data (run (run initial [Mount, Settle r]) evs) = data initial"
    unfolding run_append .
  then have "data (run (run initial [Mount, Settle r]) evs) = None"
    by (simp add: initial_def)
  then show "Home P (run (run initial [Mount, Settle r]) evs)
      = Loading (''Loading your Wrapped'' @ hellip)"
    by (simp add: Home_def Home_render_def)
next
  assume a: "fetch_failed r \<and> Mount \<notin> set evs"
  then have "count_list evs Mount = 0" by (simp add: count_list_0_iff)
  then show "requests (run (run initial [Mount, Settle r]) evs)
      = [\<lparr>req_method = ''GET'', req_url = ''http://127.0.0.1:8000/wrapped''\<rparr>]"
    by (simp add: run_requests initial_def wrapped_request_def)
next
  assume a: "fetch_failed r \<and> Mount \<notin> set evs \<and> realizable 0 ([Mount, Settle r] @ evs)"
  then have f: "fetch_failed r" and m: "Mount \<notin> set evs" and q: "realizable 0 (evs @ [])"
    by simp_all
  from quiet_run [OF m q]
  have stay: "run (run initial [Mount, Settle r]) evs = run initial [Mount, Settle r]"
    by simp
  from failed_settle [OF f] obtain e where
    s1: "run initial [Mount, Settle r] =
      \<lparr>data = None, console_error = [(''Failed to fetch wrapped data:'', e)],
       requests = [wrapped_request]\<rparr>" by blast
  show "Home P (run (run initial [Mount, Settle r]) evs)
      = Loading (''Loading your Wrapped'' @ hellip)"
    unfolding stay by (simp add: s1 Home_def Home_render_def)
  show "requests (run (run initial [Mount, Settle r]) evs)
      = [\<lparr>req_method = ''GET'', req_url = ''http://127.0.0.1:8000/wrapped''\<rparr>]"
    unfolding stay by (simp add: s1 wrapped_request_def)
  show "\<exists>e. console_error (run (run initial [Mount, Settle r]) evs)
      = [(''Failed to fetch wrapped data:'', e)]"
    unfolding stay by (simp add: s1)
next
  assume "\<forall>e\<in>set evs. \<not> delivers_data e"
  then have "data (run initial evs) = data initial" by (rule run_keeps_data)
  then show "Home P (run initial evs) = Loading (''Loading your Wrapped'' @ hellip)"
    by (simp add: Home_def Home_render_def initial_def)
qed

theorem fetch_failure_keeps_loading_witness:
  "fetch_failed (Inl (NetworkError ''Failed to fetch'')) \<and>
   fetch_failed (Inr (Response (Inl (JsonSyntaxError ''Unexpected token'')))) \<and>
   Mount \<notin> set [Rerender, Rerender] \<and>
   realizable 0 ([Mount, Settle (Inl (NetworkError ''Failed to fetch''))] @ [Rerender, Rerender]) \<and>
   realizable 0
     ([Mount, Settle (Inr (Response (Inl (JsonSyntaxError ''Unexpected token''))))]
        @ [Rerender, Rerender]) \<and>
   \<not> delivers_data Mount \<and> \<not> delivers_data Rerender \<and>
   Home example_host
     (run (run initial [Mount, Settle (Inl (NetworkError ''Failed to fetch''))])
        [Rerender, Rerender])
     = Loading (''Loading your Wrapped'' @ hellip) \<and>
   requests
     (run (run initial [Mount, Settle (Inl (NetworkError ''Failed to fetch''))])
        [Rerender, Rerender])
     = [\<lparr>req_method = ''GET'', req_url = ''http://127.0.0.1:8000/wrapped''\<rparr>] \<and>
   Home example_host
     (run (run initial [Mount, Settle (Inr (Response (Inl (JsonSyntaxError ''Unexpected token''))))])
        [Rerender, Rerender])
     = Loading (''Loading your Wrapped'' @ hellip) \<and>
   Home example_host (run initial [Mount, Rerender]) = Loading (''Loading your Wrapped'' @ hellip)"
proof -
  have a: "fetch_failed (Inl (NetworkError ''Failed to fetch''))" by simp
  have b: "fetch_failed (Inr (Response (Inl (JsonSyntaxError ''Unexpected token''))))" by simp
  have m: "Mount \<notin> set [Rerender, Rerender]" by simp
  have q: "realizable 0
      ([Mount, Settle (Inl (NetworkError ''Failed to fetch''))] @ [Rerender, Rerender])"
    by simp
  have q': "realizable 0
     ([Mount, Settle (Inr (Response (Inl (JsonSyntaxError ''Unexpected token''))))]
        @ [Rerender, Rerender])"
    by simp
  have c: "\<forall>e\<in>set [Mount, Rerender]. \<not> delivers_data e" by simp
  have d: "\<not> delivers_data Mount \<and> \<not> delivers_data Rerender" by simp
  from a b m q q' c d
    fetch_failure_keeps_loading [of "Inl (NetworkError ''Failed to fetch'')" initial
      "[Rerender, Rerender]" example_host]
    fetch_failure_keeps_loading [of "Inr (Response (Inl (JsonSyntaxError ''Unexpected token'')))"
      initial "[Rerender, Rerender]" example_host]
    fetch_failure_keeps_loading [of "Inl (NetworkError ''Failed to fetch'')" initial
      "[Mount, Rerender]" example_host]
  show ?thesis by blast
qed

text \<open>
  C7, as the code has it. Every run of the effect sends one GET to the fixed endpoint and
  nothing else sends one, so the requests sent are as many as the runs of the effect: a
  page view in which the effect runs once fetches exactly once. The snapshot changes only
  when a fetch resolves with a payload. In a page view in which the effect runs once,
  once \<open>data\<close> holds the parsed payload no later event changes it, and every later render
  is the page of that same payload.
\<close>

theorem snapshot_fetched_once:
  "requests (run initial evs)
     = replicate (count_list evs Mount)
         \<lparr>req_method = ''GET'', req_url = ''http://127.0.0.1:8000/wrapped''\<rparr> \<and>
   (Mount \<notin> set evs \<longrightarrow>
      requests (run initial (Mount # evs))
        = [\<lparr>req_method = ''GET'', req_url = ''http://127.0.0.1:8000/wrapped''\<rparr>]) \<and>
   data (run initial [Mount, Settle (Inr (Response (Inr j)))]) = Some j \<and>
   ((\<forall>e\<in>set evs. \<not> delivers_data e) \<longrightarrow>
      data (run s evs) = data s \<and> Home P (run s evs) = Home P s) \<and>
   (realizable 0 (Mount # pre @ post) \<and> Mount \<notin> set (pre @ post) \<and>
    data (run initial (Mount # pre)) = Some j \<longrightarrow>
      data (run initial (Mount # pre @ post)) = Some j \<and>
      Home P (run initial (Mount # pre @ post)) = Page (render_page P j))"
proof (intro conjI impI)
  show "requests (run initial evs)
     = replicate (count_list evs Mount)
         \<lparr>req_method = ''GET'', req_url = ''http://127.0.0.1:8000/wrapped''\<rparr>"
    by (simp add: run_requests initial_def wrapped_request_def)
next
  assume "Mount \<notin> set evs"
  then have "count_list evs Mount = 0" by (simp add: count_list_0_iff)
  then show "requests (run initial (Mount # evs))
      = [\<lparr>req_method = ''GET'', req_url = ''http://127.0.0.1:8000/wrapped''\<rparr>]"
    by (simp add: run_requests initial_def wrapped_request_def)
next
  show "data (run initial [Mount, Settle (Inr (Response (Inr j)))]) = Some j"
    by (simp add: resolved_settle)
next
  assume a: "\<forall>e\<in>set evs. \<not> delivers_data e"
  then show k: "data (run s evs) = data s" by (rule run_keeps_data)
  show "Home P (run s evs) = Home P s" by (simp add: Home_def k)
next
  assume a: "realizable 0 (Mount # pre @ post) \<and> Mount \<notin> set (pre @ post) \<and>
    data (run initial (Mount # pre)) = Some j"
  then have r: "realizable (Suc 0) (pre @ post)" and mp: "Mount \<notin> set pre"
    and mq: "Mount \<notin> set post" and d: "data (run initial (Mount # pre)) = Some j"
    by simp_all
  have n: "data (step initial Mount) = None" by (simp add: initial_def effect_issue_def)
  from one_pending_run [OF mp r, of "step initial Mount"] d n
  have "realizable 0 (post @ [])" by (auto simp: run_Cons)
  from quiet_run [OF mq this]
  have stay: "run (run initial (Mount # pre)) post = run initial (Mount # pre)" by simp
  have e: "run initial (Mount # pre @ post) = run (run initial (Mount # pre)) post"
    using run_append [of initial "Mount # pre" post] by simp
  show "data (run initial (Mount # pre @ post)) = Some j"
    unfolding e stay by (rule d)
  show "Home P (run initial (Mount # pre @ post)) = Page (render_page P j)"
    unfolding e stay by (simp add: Home_def Home_render_def d)
qed

theorem snapshot_fetched_once_witness:
  "Mount \<notin> set [Rerender, Settle (Inr (Response (Inr example_payload))), Rerender] \<and>
   realizable 0 (Mount # [Rerender, Settle (Inr (Response (Inr example_payload)))] @ [Rerender, Rerender]) \<and>
   Mount \<notin> set ([Rerender, Settle (Inr (Response (Inr example_payload)))] @ [Rerender, Rerender]) \<and>
   data (run initial (Mount # [Rerender, Settle (Inr (Response (Inr example_payload)))]))
     = Some example_payload \<and>
   requests (run initial (Mount # [Rerender, Settle (Inr (Response (Inr example_payload))), Rerender]))
     = [\<lparr>req_method = ''GET'', req_url = ''http://127.0.0.1:8000/wrapped''\<rparr>] \<and>
   data (run initial
          (Mount # [Rerender, Settle (Inr (Response (Inr example_payload)))] @ [Rerender, Rerender]))
     = Some example_payload \<and>
   Home example_host
     (run initial
        (Mount # [Rerender, Settle (Inr (Response (Inr example_payload)))] @ [Rerender, Rerender]))
     = Page (render_page example_host example_payload)"
proof -
  have m: "Mount \<notin> set [Rerender, Settle (Inr (Response (Inr example_payload))), Rerender]"
    by simp
  have h: "realizable 0 (Mount # [Rerender, Settle (Inr (Response (Inr example_payload)))] @ [Rerender, Rerender]) \<and>
   Mount \<notin> set ([Rerender, Settle (Inr (Response (Inr example_payload)))] @ [Rerender, Rerender]) \<and>
   data (run initial (Mount # [Rerender, Settle (Inr (Response (Inr example_payload)))]))
     = Some example_payload"
    by (simp add: run_def initial_def effect_issue_def effect_settle_def then_promise_def)
  from m h
    snapshot_fetched_once [of
      "[Rerender, Settle (Inr (Response (Inr example_payload))), Rerender]" example_payload initial
      example_host "[Rerender, Settle (Inr (Response (Inr example_payload)))]" "[Rerender, Rerender]"]
  show ?thesis by blast
qed

theorem snapshot_fetched_once_counterexample:
  "realizable 0
     [Mount, Mount, Settle (Inr (Response (Inr example_payload))), Rerender,
      Settle (Inr (Response (Inr (example_payload\<lparr>steps_total := Fin 1\<rparr>))))] \<and>
   requests (run initial [Mount, Mount]) = [wrapped_request, wrapped_request] \<and>
   data (run initial
          [Mount, Mount, Settle (Inr (Response (Inr example_payload))), Rerender])
     = Some example_payload \<and>
   data (run initial
          [Mount, Mount, Settle (Inr (Response (Inr example_payload))), Rerender,
           Settle (Inr (Response (Inr (example_payload\<lparr>steps_total := Fin 1\<rparr>))))])
     = Some (example_payload\<lparr>steps_total := Fin 1\<rparr>) \<and>
   example_payload\<lparr>steps_total := Fin 1\<rparr> \<noteq> example_payload"
  by (simp add: run_def initial_def effect_issue_def effect_settle_def then_promise_def
        example_payload_def)

end
